theory Spec2Isabelle
  imports Complex_Main
begin

section \<open>Transportation problem: formulation and sensibility analysis of main.py\<close>

text \<open>
  The program reads a transportation problem (sources, customers, arcs and four
  parameters), formulates a linear program from three constraint rules and one
  objective rule, hands the instance to an external solver and prints the solution with
  conclusions drawn from dual values and reduced costs.

  Numbers are modelled as \<open>real\<close>, so a comparison of two numbers is exact; set
  members are strings; a Set of the modelling
  library is the list of its members in iteration order. A parameter is a partial map from
  its index to a number: the four parameters are declared without a default value, so an
  index of the index set may have no value.
\<close>

subsection \<open>Data\<close>

type_synonym arc = "string \<times> string"

text \<open>
  The exceptions a run can end with. The modelling library raises \<open>RuntimeError\<close>
  when the data give a parameter a value at an index outside its index set,
  \<open>KeyError\<close> when a component is subscripted outside its index set, and
  \<open>ValueError\<close> when the number of a parameter that has none is asked for. The table
  library raises \<open>TypeError\<close> when a two-level row index is built from no key at all.
\<close>

datatype py_error = KeyError | ValueError | RuntimeError | TypeError

record data_portal =
  sSources :: "string list"
  sCustomers :: "string list"
  sSources_sCustomers :: "arc list"
  pSourceProduction :: "string \<rightharpoonup> real"
  pCustomerDemand :: "string \<rightharpoonup> real"
  pTransportationCosts :: "arc \<rightharpoonup> real"
  pFixedTransportation :: "arc \<rightharpoonup> real"

text \<open>
  The parameters are mutable, so an expression holds a parameter by reference and its
  number is read when the expression is evaluated.
\<close>

datatype param_ref =
    Ref_pSourceProduction string
  | Ref_pCustomerDemand string
  | Ref_pTransportationCosts arc
  | Ref_pFixedTransportation arc

definition getitem_value :: "'i list \<Rightarrow> ('i \<rightharpoonup> real) \<Rightarrow> 'i \<Rightarrow> py_error + real" where
  "getitem_value index_set p i =
     (if i \<in> set index_set
      then (case p i of None \<Rightarrow> Inl ValueError | Some v \<Rightarrow> Inr v)
      else Inl KeyError)"

fun param_value :: "data_portal \<Rightarrow> param_ref \<Rightarrow> py_error + real" where
  "param_value model (Ref_pSourceProduction i) =
     getitem_value (sSources model) (pSourceProduction model) i"
| "param_value model (Ref_pCustomerDemand i) =
     getitem_value (sCustomers model) (pCustomerDemand model) i"
| "param_value model (Ref_pTransportationCosts a) =
     getitem_value (sSources_sCustomers model) (pTransportationCosts model) a"
| "param_value model (Ref_pFixedTransportation a) =
     getitem_value (sSources_sCustomers model) (pFixedTransportation model) a"

subsection \<open>Expressions\<close>

text \<open>
  A constraint of this program relates a sum of flow variables (each named by its arc) to
  one parameter. A rule returns a constraint expression or \<open>Constraint.Skip\<close>.
\<close>

datatype relation = LessEq | GreaterEq | Equal

record constraint_expr =
  body :: "arc list"
  relation :: relation
  bound :: param_ref

datatype rule_result = Constraint_Skip | Constraint_Expr constraint_expr

text \<open>The objective is a sum of products of one cost parameter and one flow variable.\<close>

datatype objective_sense = Minimize | Maximize

record objective_expr =
  terms :: "(param_ref \<times> arc) list"
  sense :: objective_sense

subsection \<open>The rules of \<open>create_model\<close>\<close>

definition c01_production_limit_satisfaction ::
    "data_portal \<Rightarrow> string \<Rightarrow> py_error + rule_result" where
  "c01_production_limit_satisfaction model iSource =
     Inr (Constraint_Expr
       \<lparr>body = [(iSource, iCustomer). iCustomer \<leftarrow> sCustomers model,
                  (iSource, iCustomer) \<in> set (sSources_sCustomers model)],
        relation = LessEq,
        bound = Ref_pSourceProduction iSource\<rparr>)"

definition c02_demand_limit_satisfaction ::
    "data_portal \<Rightarrow> string \<Rightarrow> py_error + rule_result" where
  "c02_demand_limit_satisfaction model iCustomer =
     Inr (Constraint_Expr
       \<lparr>body = [(iSource, iCustomer). iSource \<leftarrow> sSources model,
                  (iSource, iCustomer) \<in> set (sSources_sCustomers model)],
        relation = GreaterEq,
        bound = Ref_pCustomerDemand iCustomer\<rparr>)"

text \<open>
  The third rule reads the number of \<open>pFixedTransportation\<close> in its condition. Which
  components it indexes, and where, is recorded beside its result: the first component of
  the pair lists the subscript operations in the order they happen. The conjunction of the
  condition evaluates its right operand only when the left one holds.
\<close>

datatype getitem =
    Get_pFixedTransportation arc
  | Get_vQuantityExchangedSourceCustomer arc

definition c03_fixed_transportations ::
    "data_portal \<Rightarrow> string \<Rightarrow> string \<Rightarrow> getitem list \<times> (py_error + rule_result)" where
  "c03_fixed_transportations model iSource iCustomer =
     (if (iSource, iCustomer) \<in> set (sSources_sCustomers model)
      then
        (case param_value model (Ref_pFixedTransportation (iSource, iCustomer)) of
           Inl e \<Rightarrow> ([Get_pFixedTransportation (iSource, iCustomer)], Inl e)
         | Inr v \<Rightarrow>
             if v \<noteq> 0
             then ([Get_pFixedTransportation (iSource, iCustomer),
                    Get_vQuantityExchangedSourceCustomer (iSource, iCustomer),
                    Get_pFixedTransportation (iSource, iCustomer)],
                   Inr (Constraint_Expr
                     \<lparr>body = [(iSource, iCustomer)],
                      relation = Equal,
                      bound = Ref_pFixedTransportation (iSource, iCustomer)\<rparr>))
             else ([Get_pFixedTransportation (iSource, iCustomer)], Inr Constraint_Skip))
      else ([], Inr Constraint_Skip))"

definition obj_expression :: "data_portal \<Rightarrow> objective_expr" where
  "obj_expression model =
     \<lparr>terms = [(Ref_pTransportationCosts (iSource, iCustomer), (iSource, iCustomer)).
                 iSource \<leftarrow> sSources model, iCustomer \<leftarrow> sCustomers model,
                 (iSource, iCustomer) \<in> set (sSources_sCustomers model)],
      sense = Minimize\<rparr>"

subsection \<open>Building the instance\<close>

text \<open>
  An indexed constraint component calls its rule once for every member of its index set,
  in order; an index whose rule returns \<open>Constraint.Skip\<close> gets no constraint, and an
  exception of a rule ends the construction.
\<close>

fun construct_constraint ::
    "('i \<Rightarrow> py_error + rule_result) \<Rightarrow> 'i list \<Rightarrow> py_error + ('i \<times> constraint_expr) list" where
  "construct_constraint rule [] = Inr []"
| "construct_constraint rule (i # is) =
     (case rule i of
        Inl e \<Rightarrow> Inl e
      | Inr Constraint_Skip \<Rightarrow> construct_constraint rule is
      | Inr (Constraint_Expr c) \<Rightarrow>
          (case construct_constraint rule is of
             Inl e \<Rightarrow> Inl e
           | Inr cs \<Rightarrow> Inr ((i, c) # cs)))"

record concrete_model =
  data :: data_portal
  vQuantityExchangedSourceCustomer :: "arc list"
  con_c01_production_limit_satisfaction :: "(string \<times> constraint_expr) list"
  con_c02_demand_limit_satisfaction :: "(string \<times> constraint_expr) list"
  con_c03_fixed_transportations :: "(arc \<times> constraint_expr) list"
  f_obj :: objective_expr

text \<open>
  The components are built in the order of their declaration: the sets, the four
  parameters, the variable, the three constraint components, the objective. A parameter
  takes its values from the data, and a value at an index outside the index set of the
  parameter ends the construction before any rule is called.
\<close>

definition params_within_index :: "data_portal \<Rightarrow> bool" where
  "params_within_index d =
     (dom (pSourceProduction d) \<subseteq> set (sSources d) \<and>
      dom (pCustomerDemand d) \<subseteq> set (sCustomers d) \<and>
      dom (pTransportationCosts d) \<subseteq> set (sSources_sCustomers d) \<and>
      dom (pFixedTransportation d) \<subseteq> set (sSources_sCustomers d))"

definition create_instance :: "data_portal \<Rightarrow> py_error + concrete_model" where
  "create_instance d =
     (if \<not> params_within_index d
      then Inl RuntimeError
      else
     (case construct_constraint (c01_production_limit_satisfaction d) (sSources d) of
        Inl e \<Rightarrow> Inl e
      | Inr c01 \<Rightarrow>
     (case construct_constraint (c02_demand_limit_satisfaction d) (sCustomers d) of
        Inl e \<Rightarrow> Inl e
      | Inr c02 \<Rightarrow>
     (case construct_constraint (\<lambda>(iSource, iCustomer). snd (c03_fixed_transportations d iSource iCustomer))
             (List.product (sSources d) (sCustomers d)) of
        Inl e \<Rightarrow> Inl e
      | Inr c03 \<Rightarrow>
          Inr \<lparr>data = d,
               vQuantityExchangedSourceCustomer = sSources_sCustomers d,
               con_c01_production_limit_satisfaction = c01,
               con_c02_demand_limit_satisfaction = c02,
               con_c03_fixed_transportations = c03,
               f_obj = obj_expression d\<rparr>))))"

subsection \<open>Meaning of a constraint\<close>

text \<open>
  A flow assigns a number to every arc. The body of a constraint evaluates to the sum of
  the flows of its arcs; a constraint holds when its body and the number of its bound
  stand in its relation.
\<close>

definition body_value :: "(arc \<Rightarrow> real) \<Rightarrow> constraint_expr \<Rightarrow> real" where
  "body_value x c = sum_list (map x (body c))"

text \<open>
  The value of a constraint is the value of the expression the library keeps as its body.
  A sum of variables is the body. When the sum of a rule is empty, the rule compares the
  number 0 with a parameter and the parameter builds the relation: \<open>0 <= p\<close> is kept
  with the body 0, but \<open>0 >= p\<close> is kept as \<open>p <= 0\<close>, with the parameter
  as the body.
\<close>

definition constraint_value ::
    "data_portal \<Rightarrow> (arc \<Rightarrow> real) \<Rightarrow> constraint_expr \<Rightarrow> py_error + real" where
  "constraint_value d x c =
     (if body c = [] \<and> relation c = GreaterEq
      then param_value d (bound c)
      else Inr (body_value x c))"

definition holds :: "data_portal \<Rightarrow> (arc \<Rightarrow> real) \<Rightarrow> constraint_expr \<Rightarrow> bool" where
  "holds d x c =
     (case param_value d (bound c) of
        Inl e \<Rightarrow> False
      | Inr b \<Rightarrow>
          (case relation c of
             LessEq \<Rightarrow> body_value x c \<le> b
           | GreaterEq \<Rightarrow> body_value x c \<ge> b
           | Equal \<Rightarrow> body_value x c = b))"

text \<open>
  The linear program handed to the solver: every variable is declared over the
  non-negative reals, and every constraint of the three components has to hold.
\<close>

definition feasible :: "concrete_model \<Rightarrow> (arc \<Rightarrow> real) \<Rightarrow> bool" where
  "feasible inst x =
     ((\<forall>a \<in> set (vQuantityExchangedSourceCustomer inst). 0 \<le> x a) \<and>
      (\<forall>ic \<in> set (con_c01_production_limit_satisfaction inst). holds (data inst) x (snd ic)) \<and>
      (\<forall>ic \<in> set (con_c02_demand_limit_satisfaction inst). holds (data inst) x (snd ic)) \<and>
      (\<forall>ic \<in> set (con_c03_fixed_transportations inst). holds (data inst) x (snd ic)))"

subsection \<open>The solver's reply\<close>

text \<open>
  The solver is outside the program. Its reply has the two enumerations of the solver
  interface the program compares against, the text that \<open>results.write()\<close> sends to
  the standard output, and the numbers loaded into the instance: the value of every
  variable, the dual value of every constraint and the reduced cost of every variable.
\<close>

datatype solver_status =
  Status_ok | Status_warning | Status_error | Status_aborted | Status_unknown

datatype termination_condition =
    TC_unknown | TC_maxTimeLimit | TC_maxIterations | TC_minFunctionValue | TC_minStepLength
  | TC_globallyOptimal | TC_locallyOptimal | TC_feasible | TC_optimal | TC_maxEvaluations
  | TC_other | TC_unbounded | TC_infeasible | TC_infeasibleOrUnbounded | TC_invalidProblem
  | TC_intermediateNonInteger | TC_noSolution | TC_solverFailure | TC_internalSolverError
  | TC_error | TC_userInterrupt | TC_resourceInterrupt | TC_licensingProblems

datatype constraint_key = Key_c01 string | Key_c02 string | Key_c03 arc

record solver_results =
  status :: solver_status
  termination_cond :: termination_condition
  written :: string
  flow :: "arc \<Rightarrow> real"
  dual :: "constraint_key \<Rightarrow> real"
  rc :: "arc \<Rightarrow> real"

subsection \<open>Printed output\<close>

text \<open>
  A call of \<open>print\<close> is recorded with its arguments in order; a printed data frame
  with its column names and rows; \<open>results.write()\<close> with the text it sends out.
  A data frame is the list of its rows. A cell of a row handed to a function is a number, a
  name, or the missing value NaN of the table library: every comparison of NaN with a
  number is false.
\<close>

datatype token =
    Str string
  | Num real
  | Tok_nan
  | Tok_status solver_status
  | Tok_termination termination_condition
  | Tok_None

datatype cell = Cell_str string | Cell_num real

datatype printed =
    Print "token list"
  | Print_frame "string list" "cell list list"
  | Write_results string

datatype pyfloat = Float real | NaN

fun float_lt :: "pyfloat \<Rightarrow> real \<Rightarrow> bool" where
  "float_lt (Float a) b = (a < b)"
| "float_lt NaN b = False"

fun float_gt :: "pyfloat \<Rightarrow> real \<Rightarrow> bool" where
  "float_gt (Float a) b = (a > b)"
| "float_gt NaN b = False"

fun float_abs :: "pyfloat \<Rightarrow> pyfloat" where
  "float_abs (Float a) = Float \<bar>a\<bar>"
| "float_abs NaN = NaN"

fun float_token :: "pyfloat \<Rightarrow> token" where
  "float_token (Float a) = Num a"
| "float_token NaN = Tok_nan"

definition print_conclusions_sources_sensibility_analysis :: "pyfloat \<Rightarrow> token \<Rightarrow> printed" where
  "print_conclusions_sources_sensibility_analysis shadow_price source =
     (if float_lt shadow_price 0
      then Print [Str ''The total transportation cost would be reduced by'',
                  float_token (float_abs shadow_price),
                  Str ''euros for each additional ton available in'', source]
      else if float_gt shadow_price 0
      then Print [Str ''The total transportation cost would be increased in'',
                  float_token shadow_price,
                  Str ''euros for each additional ton available in'', source]
      else Print [Str ''The total transportation cost would remain equal for each additional ton available in'',
                  source])"

definition print_conclusions_customers_sensibility_analysis :: "pyfloat \<Rightarrow> token \<Rightarrow> printed" where
  "print_conclusions_customers_sensibility_analysis shadow_price customer =
     (if float_lt shadow_price 0
      then Print [Str ''The total transportation cost would be reduced by'',
                  float_token (float_abs shadow_price),
                  Str ''euros for each additional ton supply at'', customer]
      else if float_gt shadow_price 0
      then Print [Str ''The total transportation cost would be increased in'',
                  float_token shadow_price,
                  Str ''euros for each additional ton supply at'', customer]
      else Print [Str ''The total transportation cost would remain equal for each additional ton supply at'',
                  customer])"

definition print_conclusions_routes_sensibility_analysis ::
    "pyfloat \<Rightarrow> token \<Rightarrow> token \<Rightarrow> printed" where
  "print_conclusions_routes_sensibility_analysis reduced_cost source customer =
     (if float_lt reduced_cost 0
      then Print [Str ''The total transportation cost would be reduced by'',
                  float_token (float_abs reduced_cost),
                  Str ''euros for each ton supply from'', source, Str ''to'', customer]
      else if float_gt reduced_cost 0
      then Print [Str ''The total cost would be increased in'',
                  float_token reduced_cost,
                  Str ''euros for each ton supply from'', source, Str ''to'', customer]
      else Print [Str ''The total transportation cost would remain equal for each ton supply from'',
                  source, Str ''to'', customer])"

subsection \<open>Reading the solved instance\<close>

fun map_e :: "('a \<Rightarrow> py_error + 'b) \<Rightarrow> 'a list \<Rightarrow> py_error + 'b list" where
  "map_e f [] = Inr []"
| "map_e f (x # xs) =
     (case f x of
        Inl e \<Rightarrow> Inl e
      | Inr y \<Rightarrow> (case map_e f xs of Inl e \<Rightarrow> Inl e | Inr ys \<Rightarrow> Inr (y # ys)))"

definition getitem_constraint ::
    "('i \<times> constraint_expr) list \<Rightarrow> 'i \<Rightarrow> py_error + constraint_expr" where
  "getitem_constraint component i =
     (case map_of component i of None \<Rightarrow> Inl KeyError | Some c \<Rightarrow> Inr c)"

text \<open>\<open>instance.f_obj()\<close>: the objective expression at the loaded variable values.\<close>

definition objective_value ::
    "data_portal \<Rightarrow> (arc \<Rightarrow> real) \<Rightarrow> objective_expr \<Rightarrow> py_error + real" where
  "objective_value d x obj =
     (case map_e (\<lambda>(p, a). case param_value d p of Inl e \<Rightarrow> Inl e | Inr cost \<Rightarrow> Inr (cost * x a))
             (terms obj) of
        Inl e \<Rightarrow> Inl e
      | Inr ts \<Rightarrow> Inr (sum_list ts))"

definition dict_quantity_sources_customers ::
    "concrete_model \<Rightarrow> solver_results \<Rightarrow> (arc \<times> real) list" where
  "dict_quantity_sources_customers inst results =
     [((iSource, iCustomer), flow results (iSource, iCustomer)).
        iSource \<leftarrow> sSources (data inst), iCustomer \<leftarrow> sCustomers (data inst),
        (iSource, iCustomer) \<in> set (sSources_sCustomers (data inst)) \<and>
        flow results (iSource, iCustomer) > 0]"

text \<open>Rows of the three sensibility tables: the key first, then the listed numbers.\<close>

definition dict_source_sensibility_analysis ::
    "concrete_model \<Rightarrow> solver_results \<Rightarrow> py_error + (string \<times> real \<times> real \<times> real) list" where
  "dict_source_sensibility_analysis inst results =
     map_e (\<lambda>iSource.
        case param_value (data inst) (Ref_pSourceProduction iSource) of
          Inl e \<Rightarrow> Inl e
        | Inr capacity \<Rightarrow>
            (case getitem_constraint (con_c01_production_limit_satisfaction inst) iSource of
               Inl e \<Rightarrow> Inl e
             | Inr c \<Rightarrow>
                 (case constraint_value (data inst) (flow results) c of
                    Inl e \<Rightarrow> Inl e
                  | Inr shipped \<Rightarrow>
                      Inr (iSource, capacity, shipped, dual results (Key_c01 iSource)))))
       (sSources (data inst))"

definition dict_customers_sensibility_analysis ::
    "concrete_model \<Rightarrow> solver_results \<Rightarrow> py_error + (string \<times> real \<times> real \<times> real) list" where
  "dict_customers_sensibility_analysis inst results =
     map_e (\<lambda>iCustomer.
        case param_value (data inst) (Ref_pCustomerDemand iCustomer) of
          Inl e \<Rightarrow> Inl e
        | Inr demand \<Rightarrow>
            (case getitem_constraint (con_c02_demand_limit_satisfaction inst) iCustomer of
               Inl e \<Rightarrow> Inl e
             | Inr c \<Rightarrow>
                 (case constraint_value (data inst) (flow results) c of
                    Inl e \<Rightarrow> Inl e
                  | Inr shipped \<Rightarrow>
                      Inr (iCustomer, demand, shipped, dual results (Key_c02 iCustomer)))))
       (sCustomers (data inst))"

definition dict_routes_sensibility_analysis ::
    "concrete_model \<Rightarrow> solver_results \<Rightarrow> (arc \<times> real \<times> real) list" where
  "dict_routes_sensibility_analysis inst results =
     [((iSource, iCustomer), flow results (iSource, iCustomer), rc results (iSource, iCustomer)).
        iSource \<leftarrow> sSources (data inst), iCustomer \<leftarrow> sCustomers (data inst),
        (iSource, iCustomer) \<in> set (sSources_sCustomers (data inst))]"

text \<open>
  The conclusions: the rows of a table that pass the comparison are given to the printing
  function one by one, in the order of the table. When no row passes, the table library
  still calls the function once, on a row whose cells are all NaN.
\<close>

definition apply_rows :: "('row \<Rightarrow> printed) \<Rightarrow> printed \<Rightarrow> 'row list \<Rightarrow> printed list" where
  "apply_rows f on_nan_row rows = (if rows = [] then [on_nan_row] else map f rows)"

definition conclusions_sources :: "(string \<times> real \<times> real \<times> real) list \<Rightarrow> printed list" where
  "conclusions_sources df =
     apply_rows
       (\<lambda>(source, capacity, shipped, shadow_price).
          print_conclusions_sources_sensibility_analysis (Float shadow_price) (Str source))
       (print_conclusions_sources_sensibility_analysis NaN Tok_nan)
       (filter (\<lambda>(source, capacity, shipped, shadow_price). capacity = shipped) df)"

definition conclusions_customers :: "(string \<times> real \<times> real \<times> real) list \<Rightarrow> printed list" where
  "conclusions_customers df =
     apply_rows
       (\<lambda>(customer, demand, shipped, shadow_price).
          print_conclusions_customers_sensibility_analysis (Float shadow_price) (Str customer))
       (print_conclusions_customers_sensibility_analysis NaN Tok_nan)
       (filter (\<lambda>(customer, demand, shipped, shadow_price). demand = shipped) df)"

definition conclusions_routes :: "(arc \<times> real \<times> real) list \<Rightarrow> printed list" where
  "conclusions_routes df =
     apply_rows
       (\<lambda>((source, customer), quantity, reduced_cost).
          print_conclusions_routes_sensibility_analysis (Float reduced_cost)
            (Str source) (Str customer))
       (print_conclusions_routes_sensibility_analysis NaN Tok_nan Tok_nan)
       (filter (\<lambda>((source, customer), quantity, reduced_cost). quantity = 0) df)"

subsection \<open>\<open>solve_problem_and_print_results\<close>\<close>

text \<open>
  The steps of the branch for an optimal solution, in program order. A step prints its
  lines or raises; what was printed before an exception stays printed. The tables of
  quantities and of routes have a two-level row index built from the keys of their
  dictionary, which raises \<open>TypeError\<close> when the dictionary is empty.
\<close>

fun run_steps :: "(py_error + printed list) list \<Rightarrow> printed list \<times> py_error option" where
  "run_steps [] = ([], None)"
| "run_steps (Inl e # steps) = ([], Some e)"
| "run_steps (Inr out # steps) = (out @ fst (run_steps steps), snd (run_steps steps))"

definition newline :: string where
  "newline = [CHR 0x0A]"

definition print_optimal ::
    "concrete_model \<Rightarrow> solver_results \<Rightarrow> printed list \<times> py_error option" where
  "print_optimal inst results =
     run_steps
      [Inr [Print [Str ''Solver status: '', Tok_status (status results)],
            Print [Str ''Termination condition: '', Tok_termination (termination_cond results),
                   Str newline]],
       (case objective_value (data inst) (flow results) (f_obj inst) of
          Inl e \<Rightarrow> Inl e
        | Inr total_cost \<Rightarrow>
            Inr [Print [Str ''Total transportation cost: '', Num total_cost, Str newline]]),
       Inr [Print [Str ''Quantity exchanged between sources and customers:'']],
       (if dict_quantity_sources_customers inst results = []
        then Inl TypeError
        else Inr [Print_frame [''Source'', ''Customer'', ''Quantity'']
                    (map (\<lambda>((source, customer), quantity).
                            [Cell_str source, Cell_str customer, Cell_num quantity])
                         (dict_quantity_sources_customers inst results)),
                  Print [Str newline]]),
       Inr [Print [Str ''Sources sensibility analysis:'']],
       (case dict_source_sensibility_analysis inst results of
          Inl e \<Rightarrow> Inl e
        | Inr df \<Rightarrow>
            Inr ([Print_frame [''Source'', ''Capacity'', ''Shipped'', ''Shadow price'']
                    (map (\<lambda>(source, capacity, shipped, shadow_price).
                            [Cell_str source, Cell_num capacity, Cell_num shipped,
                             Cell_num shadow_price]) df)]
                 @ conclusions_sources df @ [Print [Str newline]])),
       Inr [Print [Str ''Customers sensibility analysis:'']],
       (case dict_customers_sensibility_analysis inst results of
          Inl e \<Rightarrow> Inl e
        | Inr df \<Rightarrow>
            Inr ([Print_frame [''Customer'', ''Demand'', ''Shipped'', ''Shadow price'']
                    (map (\<lambda>(customer, demand, shipped, shadow_price).
                            [Cell_str customer, Cell_num demand, Cell_num shipped,
                             Cell_num shadow_price]) df)]
                 @ conclusions_customers df @ [Print [Str newline]])),
       Inr [Print [Str ''Routes sensibility analysis:'']],
       (if dict_routes_sensibility_analysis inst results = []
        then Inl TypeError
        else Inr ([Print_frame [''Source'', ''Customer'', ''Quantity'', ''Reduced cost'']
                     (map (\<lambda>((source, customer), quantity, reduced_cost).
                             [Cell_str source, Cell_str customer, Cell_num quantity,
                              Cell_num reduced_cost])
                          (dict_routes_sensibility_analysis inst results))]
                  @ conclusions_routes (dict_routes_sensibility_analysis inst results)
                  @ [Print [Str newline]]))]"

definition print_results ::
    "concrete_model \<Rightarrow> solver_results \<Rightarrow> printed list \<times> py_error option" where
  "print_results inst results =
     (if termination_cond results = TC_optimal \<and> status results = Status_ok
      then print_optimal inst results
      else if termination_cond results = TC_infeasible
      then ([Print [Str newline],
             Print [Str ''Solver status: '', Tok_status (status results)],
             Print [Str ''Termination condition: '', Tok_termination (termination_cond results)],
             Print [Str newline],
             Write_results (written results),
             Print [Tok_None]], None)
      else ([Print [Str newline],
             Print [Str ''Solver status: '', Tok_status (status results)],
             Print [Str ''Termination condition: '', Tok_termination (termination_cond results)]],
            None))"

text \<open>
  One run, from the loaded data. The solver is a parameter; the run records what was
  printed, the exception that ended it (if any) and the instances the solver was called on.
\<close>

record run =
  stdout :: "printed list"
  raised :: "py_error option"
  solver_calls :: "concrete_model list"

definition solve_problem_and_print_results ::
    "(concrete_model \<Rightarrow> solver_results) \<Rightarrow> data_portal \<Rightarrow> run" where
  "solve_problem_and_print_results opt_solve d =
     (case create_instance d of
        Inl e \<Rightarrow> \<lparr>stdout = [], raised = Some e, solver_calls = []\<rparr>
      | Inr inst \<Rightarrow>
          (let results = opt_solve inst;
               report = print_results inst results
           in \<lparr>stdout = fst report, raised = snd report, solver_calls = [inst]\<rparr>))"

subsection \<open>Sample data\<close>

text \<open>
  A small problem in which the source \<open>Rot\<close> has no outgoing arc and the customer
  \<open>Ber\<close>, with a positive demand, has no incoming arc.
\<close>

definition isolated_data :: data_portal where
  "isolated_data =
     \<lparr>sSources = [''Arn'', ''Rot''],
      sCustomers = [''Ams'', ''Ber''],
      sSources_sCustomers = [(''Arn'', ''Ams'')],
      pSourceProduction = [''Arn'' \<mapsto> 400, ''Rot'' \<mapsto> 50],
      pCustomerDemand = [''Ams'' \<mapsto> 300, ''Ber'' \<mapsto> 200],
      pTransportationCosts = [(''Arn'', ''Ams'') \<mapsto> 1],
      pFixedTransportation = [(''Arn'', ''Ams'') \<mapsto> 0]\<rparr>"

definition isolated_instance :: concrete_model where
  "isolated_instance =
     \<lparr>data = isolated_data,
      vQuantityExchangedSourceCustomer = [(''Arn'', ''Ams'')],
      con_c01_production_limit_satisfaction =
        [(''Arn'', \<lparr>body = [(''Arn'', ''Ams'')], relation = LessEq,
                    bound = Ref_pSourceProduction ''Arn''\<rparr>),
         (''Rot'', \<lparr>body = [], relation = LessEq, bound = Ref_pSourceProduction ''Rot''\<rparr>)],
      con_c02_demand_limit_satisfaction =
        [(''Ams'', \<lparr>body = [(''Arn'', ''Ams'')], relation = GreaterEq,
                    bound = Ref_pCustomerDemand ''Ams''\<rparr>),
         (''Ber'', \<lparr>body = [], relation = GreaterEq, bound = Ref_pCustomerDemand ''Ber''\<rparr>)],
      con_c03_fixed_transportations = [],
      f_obj = \<lparr>terms = [(Ref_pTransportationCosts (''Arn'', ''Ams''), (''Arn'', ''Ams''))],
               sense = Minimize\<rparr>\<rparr>"

text \<open>A problem whose only arc has no value of \<open>pFixedTransportation\<close>.\<close>

definition missing_fixed_data :: data_portal where
  "missing_fixed_data =
     \<lparr>sSources = [''Arn''],
      sCustomers = [''Ams''],
      sSources_sCustomers = [(''Arn'', ''Ams'')],
      pSourceProduction = [''Arn'' \<mapsto> 400],
      pCustomerDemand = [''Ams'' \<mapsto> 300],
      pTransportationCosts = [(''Arn'', ''Ams'') \<mapsto> 1],
      pFixedTransportation = Map.empty\<rparr>"

text \<open>
  A problem with an arc from an unknown source, an arc to an unknown customer, a negative
  capacity, a negative demand and a negative fixed quantity; the instance built from it;
  and a reply of a solver that failed.
\<close>

definition malformed_data :: data_portal where
  "malformed_data =
     \<lparr>sSources = [''Arn''],
      sCustomers = [''Ams''],
      sSources_sCustomers = [(''Arn'', ''Ams''), (''Xxx'', ''Ams''), (''Arn'', ''Yyy'')],
      pSourceProduction = [''Arn'' \<mapsto> - 400],
      pCustomerDemand = [''Ams'' \<mapsto> - 300],
      pTransportationCosts =
        [(''Arn'', ''Ams'') \<mapsto> 1, (''Xxx'', ''Ams'') \<mapsto> 1, (''Arn'', ''Yyy'') \<mapsto> 1],
      pFixedTransportation =
        [(''Arn'', ''Ams'') \<mapsto> - 5, (''Xxx'', ''Ams'') \<mapsto> 0, (''Arn'', ''Yyy'') \<mapsto> 0]\<rparr>"

definition malformed_instance :: concrete_model where
  "malformed_instance =
     \<lparr>data = malformed_data,
      vQuantityExchangedSourceCustomer =
        [(''Arn'', ''Ams''), (''Xxx'', ''Ams''), (''Arn'', ''Yyy'')],
      con_c01_production_limit_satisfaction =
        [(''Arn'', \<lparr>body = [(''Arn'', ''Ams'')], relation = LessEq,
                    bound = Ref_pSourceProduction ''Arn''\<rparr>)],
      con_c02_demand_limit_satisfaction =
        [(''Ams'', \<lparr>body = [(''Arn'', ''Ams'')], relation = GreaterEq,
                    bound = Ref_pCustomerDemand ''Ams''\<rparr>)],
      con_c03_fixed_transportations =
        [((''Arn'', ''Ams''), \<lparr>body = [(''Arn'', ''Ams'')], relation = Equal,
                    bound = Ref_pFixedTransportation (''Arn'', ''Ams'')\<rparr>)],
      f_obj = \<lparr>terms = [(Ref_pTransportationCosts (''Arn'', ''Ams''), (''Arn'', ''Ams''))],
               sense = Minimize\<rparr>\<rparr>"

definition failed_reply :: solver_results where
  "failed_reply =
     \<lparr>status = Status_error, termination_cond = TC_error, written = ''solver failed'',
      flow = (\<lambda>a. 0), dual = (\<lambda>k. 0), rc = (\<lambda>a. 0)\<rparr>"

text \<open>
  A problem with two sources, three customers and five arcs, the instance built from it,
  and a reply with an optimal termination: the source \<open>Gou\<close> ships its whole capacity,
  every customer receives exactly its demand, and the arc from \<open>Gou\<close> to \<open>Ber\<close>
  carries nothing.
\<close>

definition base_data :: data_portal where
  "base_data =
     \<lparr>sSources = [''Arn'', ''Gou''],
      sCustomers = [''Ams'', ''Ber'', ''Lon''],
      sSources_sCustomers =
        [(''Arn'', ''Ams''), (''Arn'', ''Ber''), (''Gou'', ''Ams''), (''Gou'', ''Ber''),
         (''Gou'', ''Lon'')],
      pSourceProduction = [''Arn'' \<mapsto> 400, ''Gou'' \<mapsto> 350],
      pCustomerDemand = [''Ams'' \<mapsto> 300, ''Ber'' \<mapsto> 200, ''Lon'' \<mapsto> 100],
      pTransportationCosts =
        [(''Arn'', ''Ams'') \<mapsto> 10, (''Arn'', ''Ber'') \<mapsto> 27, (''Gou'', ''Ams'') \<mapsto> 8,
         (''Gou'', ''Ber'') \<mapsto> 30, (''Gou'', ''Lon'') \<mapsto> 25],
      pFixedTransportation =
        [(''Arn'', ''Ams'') \<mapsto> 0, (''Arn'', ''Ber'') \<mapsto> 0, (''Gou'', ''Ams'') \<mapsto> 0,
         (''Gou'', ''Ber'') \<mapsto> 0, (''Gou'', ''Lon'') \<mapsto> 0]\<rparr>"

definition base_instance :: concrete_model where
  "base_instance =
     \<lparr>data = base_data,
      vQuantityExchangedSourceCustomer =
        [(''Arn'', ''Ams''), (''Arn'', ''Ber''), (''Gou'', ''Ams''), (''Gou'', ''Ber''),
         (''Gou'', ''Lon'')],
      con_c01_production_limit_satisfaction =
        [(''Arn'', \<lparr>body = [(''Arn'', ''Ams''), (''Arn'', ''Ber'')], relation = LessEq,
                    bound = Ref_pSourceProduction ''Arn''\<rparr>),
         (''Gou'', \<lparr>body = [(''Gou'', ''Ams''), (''Gou'', ''Ber''), (''Gou'', ''Lon'')],
                    relation = LessEq, bound = Ref_pSourceProduction ''Gou''\<rparr>)],
      con_c02_demand_limit_satisfaction =
        [(''Ams'', \<lparr>body = [(''Arn'', ''Ams''), (''Gou'', ''Ams'')], relation = GreaterEq,
                    bound = Ref_pCustomerDemand ''Ams''\<rparr>),
         (''Ber'', \<lparr>body = [(''Arn'', ''Ber''), (''Gou'', ''Ber'')], relation = GreaterEq,
                    bound = Ref_pCustomerDemand ''Ber''\<rparr>),
         (''Lon'', \<lparr>body = [(''Gou'', ''Lon'')], relation = GreaterEq,
                    bound = Ref_pCustomerDemand ''Lon''\<rparr>)],
      con_c03_fixed_transportations = [],
      f_obj =
        \<lparr>terms =
           [(Ref_pTransportationCosts (''Arn'', ''Ams''), (''Arn'', ''Ams'')),
            (Ref_pTransportationCosts (''Arn'', ''Ber''), (''Arn'', ''Ber'')),
            (Ref_pTransportationCosts (''Gou'', ''Ams''), (''Gou'', ''Ams'')),
            (Ref_pTransportationCosts (''Gou'', ''Ber''), (''Gou'', ''Ber'')),
            (Ref_pTransportationCosts (''Gou'', ''Lon''), (''Gou'', ''Lon''))],
         sense = Minimize\<rparr>\<rparr>"

definition base_reply :: solver_results where
  "base_reply =
     \<lparr>status = Status_ok, termination_cond = TC_optimal, written = [],
      flow = (\<lambda>a. 0)((''Arn'', ''Ams'') := 50, (''Arn'', ''Ber'') := 200,
                       (''Gou'', ''Ams'') := 250, (''Gou'', ''Lon'') := 100),
      dual = (\<lambda>k. 0)(Key_c01 ''Gou'' := - 2, Key_c02 ''Ams'' := 10, Key_c02 ''Ber'' := 27,
                       Key_c02 ''Lon'' := 27),
      rc = (\<lambda>a. 0)((''Gou'', ''Ber'') := 5)\<rparr>"

definition failing_solver :: "concrete_model \<Rightarrow> solver_results" where
  "failing_solver inst = failed_reply"

text \<open>A problem in which one ton has to move from \<open>Arn\<close> to \<open>Ams\<close>.\<close>

definition fixed_data :: data_portal where
  "fixed_data =
     \<lparr>sSources = [''Arn'', ''Gou''],
      sCustomers = [''Ams''],
      sSources_sCustomers = [(''Arn'', ''Ams''), (''Gou'', ''Ams'')],
      pSourceProduction = [''Arn'' \<mapsto> 400, ''Gou'' \<mapsto> 600],
      pCustomerDemand = [''Ams'' \<mapsto> 300],
      pTransportationCosts = [(''Arn'', ''Ams'') \<mapsto> 10, (''Gou'', ''Ams'') \<mapsto> 8],
      pFixedTransportation = [(''Arn'', ''Ams'') \<mapsto> 1, (''Gou'', ''Ams'') \<mapsto> 0]\<rparr>"

definition fixed_instance :: concrete_model where
  "fixed_instance =
     \<lparr>data = fixed_data,
      vQuantityExchangedSourceCustomer = [(''Arn'', ''Ams''), (''Gou'', ''Ams'')],
      con_c01_production_limit_satisfaction =
        [(''Arn'', \<lparr>body = [(''Arn'', ''Ams'')], relation = LessEq,
                    bound = Ref_pSourceProduction ''Arn''\<rparr>),
         (''Gou'', \<lparr>body = [(''Gou'', ''Ams'')], relation = LessEq,
                    bound = Ref_pSourceProduction ''Gou''\<rparr>)],
      con_c02_demand_limit_satisfaction =
        [(''Ams'', \<lparr>body = [(''Arn'', ''Ams''), (''Gou'', ''Ams'')], relation = GreaterEq,
                    bound = Ref_pCustomerDemand ''Ams''\<rparr>)],
      con_c03_fixed_transportations =
        [((''Arn'', ''Ams''), \<lparr>body = [(''Arn'', ''Ams'')], relation = Equal,
                    bound = Ref_pFixedTransportation (''Arn'', ''Ams'')\<rparr>)],
      f_obj = \<lparr>terms = [(Ref_pTransportationCosts (''Arn'', ''Ams''), (''Arn'', ''Ams'')),
                        (Ref_pTransportationCosts (''Gou'', ''Ams''), (''Gou'', ''Ams''))],
               sense = Minimize\<rparr>\<rparr>"

text \<open>A reply of a solver that found the problem infeasible.\<close>

definition infeasible_reply :: solver_results where
  "infeasible_reply =
     \<lparr>status = Status_warning, termination_cond = TC_infeasible,
      written = ''Termination condition: infeasible'',
      flow = (\<lambda>a. 0), dual = (\<lambda>k. 0), rc = (\<lambda>a. 0)\<rparr>"

text \<open>
  The base problem with a reply in which the dual value of the demand constraint of
  \<open>Ams\<close> is negative.
\<close>

definition negative_dual_reply :: solver_results where
  "negative_dual_reply = base_reply\<lparr>dual := (dual base_reply)(Key_c02 ''Ams'' := - 10)\<rparr>"

text \<open>
  The base problem with a reply in which the reduced cost of the unused arc from
  \<open>Gou\<close> to \<open>Ber\<close> is negative.
\<close>

definition negative_rc_reply :: solver_results where
  "negative_rc_reply = base_reply\<lparr>rc := (rc base_reply)((''Gou'', ''Ber'') := - 5)\<rparr>"

text \<open>
  A problem with one declared arc to an unknown customer and one from an unknown source,
  all numbers being positive or zero, and the instance built from it.
\<close>

definition dangling_data :: data_portal where
  "dangling_data =
     \<lparr>sSources = [''Arn''],
      sCustomers = [''Ams''],
      sSources_sCustomers = [(''Arn'', ''Ams''), (''Arn'', ''Yyy''), (''Xxx'', ''Ams'')],
      pSourceProduction = [''Arn'' \<mapsto> 400],
      pCustomerDemand = [''Ams'' \<mapsto> 300],
      pTransportationCosts =
        [(''Arn'', ''Ams'') \<mapsto> 10, (''Arn'', ''Yyy'') \<mapsto> 1, (''Xxx'', ''Ams'') \<mapsto> 1],
      pFixedTransportation =
        [(''Arn'', ''Ams'') \<mapsto> 0, (''Arn'', ''Yyy'') \<mapsto> 0, (''Xxx'', ''Ams'') \<mapsto> 0]\<rparr>"

definition dangling_instance :: concrete_model where
  "dangling_instance =
     \<lparr>data = dangling_data,
      vQuantityExchangedSourceCustomer =
        [(''Arn'', ''Ams''), (''Arn'', ''Yyy''), (''Xxx'', ''Ams'')],
      con_c01_production_limit_satisfaction =
        [(''Arn'', \<lparr>body = [(''Arn'', ''Ams'')], relation = LessEq,
                    bound = Ref_pSourceProduction ''Arn''\<rparr>)],
      con_c02_demand_limit_satisfaction =
        [(''Ams'', \<lparr>body = [(''Arn'', ''Ams'')], relation = GreaterEq,
                    bound = Ref_pCustomerDemand ''Ams''\<rparr>)],
      con_c03_fixed_transportations = [],
      f_obj = \<lparr>terms = [(Ref_pTransportationCosts (''Arn'', ''Ams''), (''Arn'', ''Ams''))],
               sense = Minimize\<rparr>\<rparr>"

text \<open>
  A problem in which nothing is produced and nothing is asked for, the instance built from
  it, and the reply with an optimal termination in which nothing moves.
\<close>

definition zero_data :: data_portal where
  "zero_data =
     \<lparr>sSources = [''Arn''],
      sCustomers = [''Ams''],
      sSources_sCustomers = [(''Arn'', ''Ams'')],
      pSourceProduction = [''Arn'' \<mapsto> 0],
      pCustomerDemand = [''Ams'' \<mapsto> 0],
      pTransportationCosts = [(''Arn'', ''Ams'') \<mapsto> 1],
      pFixedTransportation = [(''Arn'', ''Ams'') \<mapsto> 0]\<rparr>"

definition zero_instance :: concrete_model where
  "zero_instance =
     \<lparr>data = zero_data,
      vQuantityExchangedSourceCustomer = [(''Arn'', ''Ams'')],
      con_c01_production_limit_satisfaction =
        [(''Arn'', \<lparr>body = [(''Arn'', ''Ams'')], relation = LessEq,
                    bound = Ref_pSourceProduction ''Arn''\<rparr>)],
      con_c02_demand_limit_satisfaction =
        [(''Ams'', \<lparr>body = [(''Arn'', ''Ams'')], relation = GreaterEq,
                    bound = Ref_pCustomerDemand ''Ams''\<rparr>)],
      con_c03_fixed_transportations = [],
      f_obj = \<lparr>terms = [(Ref_pTransportationCosts (''Arn'', ''Ams''), (''Arn'', ''Ams''))],
               sense = Minimize\<rparr>\<rparr>"

definition zero_reply :: solver_results where
  "zero_reply =
     \<lparr>status = Status_ok, termination_cond = TC_optimal, written = [],
      flow = (\<lambda>a. 0), dual = (\<lambda>k. 0), rc = (\<lambda>a. 0)((''Arn'', ''Ams'') := 1)\<rparr>"

definition zero_solver :: "concrete_model \<Rightarrow> solver_results" where
  "zero_solver inst = zero_reply"

text \<open>
  A problem with one source, one customer and one arc, in which the source can produce
  more than the customer asks for; the instance built from it; and the reply with an
  optimal termination in which the demand moves over the arc.
\<close>

definition slack_data :: data_portal where
  "slack_data =
     \<lparr>sSources = [''Arn''],
      sCustomers = [''Ams''],
      sSources_sCustomers = [(''Arn'', ''Ams'')],
      pSourceProduction = [''Arn'' \<mapsto> 400],
      pCustomerDemand = [''Ams'' \<mapsto> 300],
      pTransportationCosts = [(''Arn'', ''Ams'') \<mapsto> 10],
      pFixedTransportation = [(''Arn'', ''Ams'') \<mapsto> 0]\<rparr>"

definition slack_instance :: concrete_model where
  "slack_instance =
     \<lparr>data = slack_data,
      vQuantityExchangedSourceCustomer = [(''Arn'', ''Ams'')],
      con_c01_production_limit_satisfaction =
        [(''Arn'', \<lparr>body = [(''Arn'', ''Ams'')], relation = LessEq,
                    bound = Ref_pSourceProduction ''Arn''\<rparr>)],
      con_c02_demand_limit_satisfaction =
        [(''Ams'', \<lparr>body = [(''Arn'', ''Ams'')], relation = GreaterEq,
                    bound = Ref_pCustomerDemand ''Ams''\<rparr>)],
      con_c03_fixed_transportations = [],
      f_obj = \<lparr>terms = [(Ref_pTransportationCosts (''Arn'', ''Ams''), (''Arn'', ''Ams''))],
               sense = Minimize\<rparr>\<rparr>"

definition slack_reply :: solver_results where
  "slack_reply =
     \<lparr>status = Status_ok, termination_cond = TC_optimal, written = [],
      flow = (\<lambda>a. 0)((''Arn'', ''Ams'') := 300),
      dual = (\<lambda>k. 0)(Key_c02 ''Ams'' := 10),
      rc = (\<lambda>a. 0)\<rparr>"

definition slack_solver :: "concrete_model \<Rightarrow> solver_results" where
  "slack_solver inst = slack_reply"

section \<open>Properties\<close>

subsection \<open>Constraint components\<close>

lemma construct_constraint_total:
  "(\<And>i. i \<in> set is \<Longrightarrow> rule i = Inr (Constraint_Expr (f i))) \<Longrightarrow>
   construct_constraint rule is = Inr (map (\<lambda>i. (i, f i)) is)"
  by (induction "is") auto

lemma construct_constraint_Inr:
  "construct_constraint rule is = Inr cs \<Longrightarrow>
     (\<forall>i \<in> set is. \<exists>r. rule i = Inr r) \<and>
     set cs = {(i, c). i \<in> set is \<and> rule i = Inr (Constraint_Expr c)} \<and>
     map fst cs = filter (\<lambda>i. \<exists>c. rule i = Inr (Constraint_Expr c)) is"
proof (induction "is" arbitrary: cs)
  case Nil
  then show ?case by simp
next
  case (Cons i "is")
  then show ?case
    by (auto split: sum.splits rule_result.splits)
qed

lemma construct_constraint_Inl:
  "construct_constraint rule is = Inl e \<Longrightarrow> \<exists>i \<in> set is. rule i = Inl e"
  by (induction "is") (auto split: sum.splits rule_result.splits)

lemma construct_constraint_no_error:
  "(\<And>i. i \<in> set is \<Longrightarrow> \<exists>r. rule i = Inr r) \<Longrightarrow> \<exists>cs. construct_constraint rule is = Inr cs"
proof (induction "is")
  case Nil
  then show ?case by simp
next
  case (Cons i "is")
  then obtain cs where "construct_constraint rule is = Inr cs" by auto
  moreover obtain r where "rule i = Inr r" using Cons.prems by auto
  ultimately show ?case by (cases r) auto
qed

lemma concat_map_if:
  "concat (map (\<lambda>x. if P x then [f x] else []) xs) = map f (filter P xs)"
  by (induction xs) auto

lemma c01_body:
  "[(s, c). c \<leftarrow> cs, (s, c) \<in> A] = map (Pair s) (filter (\<lambda>c. (s, c) \<in> A) cs)"
  by (rule concat_map_if)

lemma c02_body:
  "[(s, c). s \<leftarrow> ss, (s, c) \<in> A] = map (\<lambda>s. (s, c)) (filter (\<lambda>s. (s, c) \<in> A) ss)"
  by (rule concat_map_if)


lemma outgoing_arcs:
  assumes "distinct cs"
  shows "distinct (map (Pair s) (filter (\<lambda>c. (s, c) \<in> A) cs))"
    and "set (map (Pair s) (filter (\<lambda>c. (s, c) \<in> A) cs)) = {a \<in> A. fst a = s \<and> snd a \<in> set cs}"
proof -
  show "distinct (map (Pair s) (filter (\<lambda>c. (s, c) \<in> A) cs))"
    using assms by (simp add: distinct_map inj_on_def)
  show "set (map (Pair s) (filter (\<lambda>c. (s, c) \<in> A) cs)) = {a \<in> A. fst a = s \<and> snd a \<in> set cs}"
    by auto
qed

lemma incoming_arcs:
  assumes "distinct ss"
  shows "distinct (map (\<lambda>s. (s, c)) (filter (\<lambda>s. (s, c) \<in> A) ss))"
    and "set (map (\<lambda>s. (s, c)) (filter (\<lambda>s. (s, c) \<in> A) ss)) = {a \<in> A. snd a = c \<and> fst a \<in> set ss}"
proof -
  show "distinct (map (\<lambda>s. (s, c)) (filter (\<lambda>s. (s, c) \<in> A) ss))"
    using assms by (simp add: distinct_map inj_on_def)
  show "set (map (\<lambda>s. (s, c)) (filter (\<lambda>s. (s, c) \<in> A) ss)) = {a \<in> A. snd a = c \<and> fst a \<in> set ss}"
    by auto
qed

lemma filter_fst_map_distinct:
  "distinct xs \<Longrightarrow> x \<in> set xs \<Longrightarrow> filter (\<lambda>ic. fst ic = x) (map (\<lambda>i. (i, f i)) xs) = [(x, f x)]"
  by (induction xs) (auto simp: filter_empty_conv)


lemma c01_construct:
  "construct_constraint (c01_production_limit_satisfaction d) ss =
    Inr (map (\<lambda>s. (s, \<lparr>body = map (Pair s) (filter (\<lambda>c. (s, c) \<in> set (sSources_sCustomers d)) (sCustomers d)),
                   relation = LessEq, bound = Ref_pSourceProduction s\<rparr>)) ss)"
  by (rule construct_constraint_total) (simp add: c01_production_limit_satisfaction_def concat_map_if)

lemma c02_construct:
  "construct_constraint (c02_demand_limit_satisfaction d) cs =
    Inr (map (\<lambda>c. (c, \<lparr>body = map (\<lambda>s. (s, c)) (filter (\<lambda>s. (s, c) \<in> set (sSources_sCustomers d)) (sSources d)),
                   relation = GreaterEq, bound = Ref_pCustomerDemand c\<rparr>)) cs)"
  by (rule construct_constraint_total) (simp add: c02_demand_limit_satisfaction_def concat_map_if)

lemma create_instance_unfold:
  "create_instance d =
     (if \<not> params_within_index d then Inl RuntimeError
      else
     (case construct_constraint (\<lambda>(s, c). snd (c03_fixed_transportations d s c))
             (List.product (sSources d) (sCustomers d)) of
        Inl e \<Rightarrow> Inl e
      | Inr c03 \<Rightarrow>
          Inr \<lparr>data = d,
               vQuantityExchangedSourceCustomer = sSources_sCustomers d,
               con_c01_production_limit_satisfaction =
                 map (\<lambda>s. (s, \<lparr>body = map (Pair s) (filter (\<lambda>c. (s, c) \<in> set (sSources_sCustomers d)) (sCustomers d)),
                   relation = LessEq, bound = Ref_pSourceProduction s\<rparr>)) (sSources d),
               con_c02_demand_limit_satisfaction =
                 map (\<lambda>c. (c, \<lparr>body = map (\<lambda>s. (s, c)) (filter (\<lambda>s. (s, c) \<in> set (sSources_sCustomers d)) (sSources d)),
                   relation = GreaterEq, bound = Ref_pCustomerDemand c\<rparr>)) (sCustomers d),
               con_c03_fixed_transportations = c03,
               f_obj = obj_expression d\<rparr>))"
  by (simp add: create_instance_def c01_construct c02_construct)

lemma create_instance_within_index:
  "create_instance d = Inr inst \<Longrightarrow> params_within_index d"
  by (simp add: create_instance_unfold split: if_splits)

lemma create_instance_c01:
  assumes "create_instance d = Inr inst"
  shows "con_c01_production_limit_satisfaction inst =
    map (\<lambda>s. (s, \<lparr>body = map (Pair s) (filter (\<lambda>c. (s, c) \<in> set (sSources_sCustomers d)) (sCustomers d)),
                   relation = LessEq, bound = Ref_pSourceProduction s\<rparr>)) (sSources d)"
  using assms by (auto simp: create_instance_unfold split: if_splits sum.splits)

lemma create_instance_c02:
  assumes "create_instance d = Inr inst"
  shows "con_c02_demand_limit_satisfaction inst =
    map (\<lambda>c. (c, \<lparr>body = map (\<lambda>s. (s, c)) (filter (\<lambda>s. (s, c) \<in> set (sSources_sCustomers d)) (sSources d)),
                   relation = GreaterEq, bound = Ref_pCustomerDemand c\<rparr>)) (sCustomers d)"
  using assms by (auto simp: create_instance_unfold split: if_splits sum.splits)

lemma create_instance_data: "create_instance d = Inr inst \<Longrightarrow> data inst = d"
  by (auto simp: create_instance_unfold split: if_splits sum.splits)

lemma create_instance_f_obj: "create_instance d = Inr inst \<Longrightarrow> f_obj inst = obj_expression d"
  by (auto simp: create_instance_unfold split: if_splits sum.splits)

lemma create_instance_vars:
  "create_instance d = Inr inst \<Longrightarrow>
     vQuantityExchangedSourceCustomer inst = sSources_sCustomers d"
  by (auto simp: create_instance_unfold split: if_splits sum.splits)

lemmas rule_defs = c01_production_limit_satisfaction_def c02_demand_limit_satisfaction_def
  c03_fixed_transportations_def obj_expression_def getitem_value_def params_within_index_def

lemma create_isolated_instance: "create_instance isolated_data = Inr isolated_instance"
  by (simp add: create_instance_def isolated_data_def isolated_instance_def rule_defs)

lemma create_malformed_instance: "create_instance malformed_data = Inr malformed_instance"
  by (simp add: create_instance_def malformed_data_def malformed_instance_def rule_defs)

lemma create_base_instance: "create_instance base_data = Inr base_instance"
  by (simp add: create_instance_def base_data_def base_instance_def rule_defs)

lemma create_missing_fixed: "create_instance missing_fixed_data = Inl ValueError"
  by (simp add: create_instance_def missing_fixed_data_def rule_defs)

lemma create_fixed_instance: "create_instance fixed_data = Inr fixed_instance"
  by (simp add: create_instance_def fixed_data_def fixed_instance_def rule_defs)

lemma create_dangling_instance: "create_instance dangling_data = Inr dangling_instance"
  by (simp add: create_instance_def dangling_data_def dangling_instance_def rule_defs)

lemma create_zero_instance: "create_instance zero_data = Inr zero_instance"
  by (simp add: create_instance_def zero_data_def zero_instance_def rule_defs)

lemma create_slack_instance: "create_instance slack_data = Inr slack_instance"
  by (simp add: create_instance_def slack_data_def slack_instance_def rule_defs)

text \<open>
  Claim C4, as stated, fails on data the program accepts: the arc from \<open>Arn\<close> to the
  unknown customer \<open>Yyy\<close> is declared and leaves \<open>Arn\<close>, yet the capacity
  constraint of \<open>Arn\<close> sums the flow of the arc to \<open>Ams\<close> only.
\<close>

theorem capacity_sum_counterexample:
  "create_instance dangling_data = Inr dangling_instance \<and>
   (''Arn'', ''Yyy'') \<in> set (sSources_sCustomers dangling_data) \<and>
   (''Arn'', ''Yyy'') \<in> set (vQuantityExchangedSourceCustomer dangling_instance) \<and>
   con_c01_production_limit_satisfaction dangling_instance =
     [(''Arn'', \<lparr>body = [(''Arn'', ''Ams'')], relation = LessEq,
                 bound = Ref_pSourceProduction ''Arn''\<rparr>)] \<and>
   (''Arn'', ''Yyy'') \<notin> set [(''Arn'', ''Ams'')]"
proof -
  have "(''Arn'', ''Yyy'') \<in> set (sSources_sCustomers dangling_data) \<and>
   (''Arn'', ''Yyy'') \<in> set (vQuantityExchangedSourceCustomer dangling_instance) \<and>
   con_c01_production_limit_satisfaction dangling_instance =
     [(''Arn'', \<lparr>body = [(''Arn'', ''Ams'')], relation = LessEq,
                 bound = Ref_pSourceProduction ''Arn''\<rparr>)] \<and>
   (''Arn'', ''Yyy'') \<notin> set [(''Arn'', ''Ams'')]"
    by (simp add: dangling_data_def dangling_instance_def)
  then show ?thesis
    using create_dangling_instance by simp
qed

text \<open>
  Claim C4, amended. In a formulated instance the capacity component has one constraint for
  every source, in the order of the sources, and exactly one at each source \<open>s\<close>. Its
  body lists, once each, the declared arcs that leave \<open>s\<close> for a listed customer, so
  its value is the sum of the flow over these arcs; its relation is \<open>\<le>\<close> and its
  bound is the production capacity of \<open>s\<close>. When there is no such arc the body is the
  empty sum, of value 0, and the constraint holds for every flow exactly when the capacity
  is not negative.
\<close>

theorem capacity_constraint_one_per_source:
  assumes inst: "create_instance d = Inr inst"
    and dS: "distinct (sSources d)" and dC: "distinct (sCustomers d)"
    and s: "s \<in> set (sSources d)"
  shows "map fst (con_c01_production_limit_satisfaction inst) = sSources d \<and>
    (\<exists>c. filter (\<lambda>ic. fst ic = s) (con_c01_production_limit_satisfaction inst) = [(s, c)] \<and>
      relation c = LessEq \<and> bound c = Ref_pSourceProduction s \<and>
      distinct (body c) \<and>
      set (body c) = {a \<in> set (sSources_sCustomers d). fst a = s \<and> snd a \<in> set (sCustomers d)} \<and>
      (\<forall>x. body_value x c =
         (\<Sum>a \<in> {a \<in> set (sSources_sCustomers d). fst a = s \<and> snd a \<in> set (sCustomers d)}. x a)) \<and>
      (\<forall>x cap. pSourceProduction d s = Some cap \<longrightarrow>
         holds d x c =
           ((\<Sum>a \<in> {a \<in> set (sSources_sCustomers d). fst a = s \<and> snd a \<in> set (sCustomers d)}. x a)
              \<le> cap)) \<and>
      ({a \<in> set (sSources_sCustomers d). fst a = s \<and> snd a \<in> set (sCustomers d)} = {} \<longrightarrow>
         body c = [] \<and> (\<forall>x. body_value x c = 0) \<and>
         (\<forall>x cap. pSourceProduction d s = Some cap \<longrightarrow> holds d x c = (0 \<le> cap))))"
proof -
  let ?A = "set (sSources_sCustomers d)"
  let ?out = "{a \<in> ?A. fst a = s \<and> snd a \<in> set (sCustomers d)}"
  let ?b = "map (Pair s) (filter (\<lambda>c. (s, c) \<in> ?A) (sCustomers d))"
  let ?c = "\<lparr>body = ?b, relation = LessEq, bound = Ref_pSourceProduction s\<rparr>"
  note fam = create_instance_c01 [OF inst]
  have keys: "map fst (con_c01_production_limit_satisfaction inst) = sSources d"
    by (simp add: fam comp_def)
  have one: "filter (\<lambda>ic. fst ic = s) (con_c01_production_limit_satisfaction inst) = [(s, ?c)]"
    unfolding fam using dS s by (rule filter_fst_map_distinct)
  have db: "distinct ?b"
    using dC by (rule outgoing_arcs(1))
  have sb: "set ?b = ?out"
    using dC by (rule outgoing_arcs(2))
  have val: "\<forall>x. body_value x ?c = (\<Sum>a \<in> ?out. x a)"
  proof
    fix x :: "arc \<Rightarrow> real"
    have "sum_list (map x ?b) = sum x (set ?b)"
      using db by (rule sum_list_distinct_conv_sum_set)
    then show "body_value x ?c = (\<Sum>a \<in> ?out. x a)"
      unfolding sb by (simp add: body_value_def)
  qed
  have hol: "\<forall>x cap. pSourceProduction d s = Some cap \<longrightarrow>
         holds d x ?c = ((\<Sum>a \<in> ?out. x a) \<le> cap)"
    using s val by (simp add: holds_def getitem_value_def)
  have emp: "?out = {} \<longrightarrow>
         body ?c = [] \<and> (\<forall>x. body_value x ?c = 0) \<and>
         (\<forall>x cap. pSourceProduction d s = Some cap \<longrightarrow> holds d x ?c = (0 \<le> cap))"
  proof
    assume e: "?out = {}"
    have "body ?c = []" using sb e by simp
    moreover have "\<forall>x. body_value x ?c = 0" using val e by simp
    moreover have "\<forall>x cap. pSourceProduction d s = Some cap \<longrightarrow> holds d x ?c = (0 \<le> cap)"
      using hol e by simp
    ultimately show "body ?c = [] \<and> (\<forall>x. body_value x ?c = 0) \<and>
         (\<forall>x cap. pSourceProduction d s = Some cap \<longrightarrow> holds d x ?c = (0 \<le> cap))"
      by blast
  qed
  have rel: "relation ?c = LessEq" and bnd: "bound ?c = Ref_pSourceProduction s"
    and db': "distinct (body ?c)" and sb': "set (body ?c) = ?out"
    using db sb by simp_all
  have "filter (\<lambda>ic. fst ic = s) (con_c01_production_limit_satisfaction inst) = [(s, ?c)] \<and>
      relation ?c = LessEq \<and> bound ?c = Ref_pSourceProduction s \<and>
      distinct (body ?c) \<and> set (body ?c) = ?out \<and>
      (\<forall>x. body_value x ?c = (\<Sum>a \<in> ?out. x a)) \<and>
      (\<forall>x cap. pSourceProduction d s = Some cap \<longrightarrow>
         holds d x ?c = ((\<Sum>a \<in> ?out. x a) \<le> cap)) \<and>
      (?out = {} \<longrightarrow>
         body ?c = [] \<and> (\<forall>x. body_value x ?c = 0) \<and>
         (\<forall>x cap. pSourceProduction d s = Some cap \<longrightarrow> holds d x ?c = (0 \<le> cap)))"
    by (intro conjI) (rule one, rule rel, rule bnd, rule db', rule sb', rule val, rule hol, rule emp)
  then show ?thesis
    using keys by blast
qed


text \<open>
  Claim C5, as stated, fails on data the program accepts: the arc from the unknown source
  \<open>Xxx\<close> to \<open>Ams\<close> is declared and enters \<open>Ams\<close>, yet the demand
  constraint of \<open>Ams\<close> sums the flow of the arc from \<open>Arn\<close> only.
\<close>

theorem demand_sum_counterexample:
  "create_instance dangling_data = Inr dangling_instance \<and>
   (''Xxx'', ''Ams'') \<in> set (sSources_sCustomers dangling_data) \<and>
   (''Xxx'', ''Ams'') \<in> set (vQuantityExchangedSourceCustomer dangling_instance) \<and>
   con_c02_demand_limit_satisfaction dangling_instance =
     [(''Ams'', \<lparr>body = [(''Arn'', ''Ams'')], relation = GreaterEq,
                 bound = Ref_pCustomerDemand ''Ams''\<rparr>)] \<and>
   (''Xxx'', ''Ams'') \<notin> set [(''Arn'', ''Ams'')]"
proof -
  have "(''Xxx'', ''Ams'') \<in> set (sSources_sCustomers dangling_data) \<and>
   (''Xxx'', ''Ams'') \<in> set (vQuantityExchangedSourceCustomer dangling_instance) \<and>
   con_c02_demand_limit_satisfaction dangling_instance =
     [(''Ams'', \<lparr>body = [(''Arn'', ''Ams'')], relation = GreaterEq,
                 bound = Ref_pCustomerDemand ''Ams''\<rparr>)] \<and>
   (''Xxx'', ''Ams'') \<notin> set [(''Arn'', ''Ams'')]"
    by (simp add: dangling_data_def dangling_instance_def)
  then show ?thesis
    using create_dangling_instance by simp
qed

text \<open>
  Claim C5, amended. In a formulated instance the demand component has one constraint for
  every customer, in the order of the customers, and exactly one at each customer
  \<open>c\<close>. Its body lists, once each, the declared arcs that enter \<open>c\<close> from a
  listed source; its relation is \<open>\<ge>\<close> and its bound is the demand of \<open>c\<close>.
  When there is no such arc and the demand is positive, the constraint is still in the
  instance, no flow satisfies it, and so the linear program given to the solver has no
  feasible point.
\<close>

theorem demand_constraint_one_per_customer:
  assumes inst: "create_instance d = Inr inst"
    and dS: "distinct (sSources d)" and dC: "distinct (sCustomers d)"
    and c: "c \<in> set (sCustomers d)"
  shows "map fst (con_c02_demand_limit_satisfaction inst) = sCustomers d \<and>
    (\<exists>e. filter (\<lambda>ic. fst ic = c) (con_c02_demand_limit_satisfaction inst) = [(c, e)] \<and>
      relation e = GreaterEq \<and> bound e = Ref_pCustomerDemand c \<and>
      distinct (body e) \<and>
      set (body e) = {a \<in> set (sSources_sCustomers d). snd a = c \<and> fst a \<in> set (sSources d)} \<and>
      (\<forall>x. body_value x e =
         (\<Sum>a \<in> {a \<in> set (sSources_sCustomers d). snd a = c \<and> fst a \<in> set (sSources d)}. x a)) \<and>
      (\<forall>x dem. pCustomerDemand d c = Some dem \<longrightarrow>
         holds d x e =
           (dem \<le> (\<Sum>a \<in> {a \<in> set (sSources_sCustomers d). snd a = c \<and> fst a \<in> set (sSources d)}. x a))) \<and>
      ({a \<in> set (sSources_sCustomers d). snd a = c \<and> fst a \<in> set (sSources d)} = {} \<longrightarrow>
         body e = [] \<and>
         (\<forall>x dem. pCustomerDemand d c = Some dem \<and> 0 < dem \<longrightarrow>
            \<not> holds d x e \<and> \<not> feasible inst x)))"
proof -
  let ?A = "set (sSources_sCustomers d)"
  let ?in = "{a \<in> ?A. snd a = c \<and> fst a \<in> set (sSources d)}"
  let ?b = "map (\<lambda>s. (s, c)) (filter (\<lambda>s. (s, c) \<in> ?A) (sSources d))"
  let ?e = "\<lparr>body = ?b, relation = GreaterEq, bound = Ref_pCustomerDemand c\<rparr>"
  note fam = create_instance_c02 [OF inst]
  have keys: "map fst (con_c02_demand_limit_satisfaction inst) = sCustomers d"
    by (simp add: fam comp_def)
  have one: "filter (\<lambda>ic. fst ic = c) (con_c02_demand_limit_satisfaction inst) = [(c, ?e)]"
    unfolding fam using dC c by (rule filter_fst_map_distinct)
  have db: "distinct ?b"
    using dS by (rule incoming_arcs(1))
  have sb: "set ?b = ?in"
    using dS by (rule incoming_arcs(2))
  have val: "\<forall>x. body_value x ?e = (\<Sum>a \<in> ?in. x a)"
  proof
    fix x :: "arc \<Rightarrow> real"
    have "sum_list (map x ?b) = sum x (set ?b)"
      using db by (rule sum_list_distinct_conv_sum_set)
    then show "body_value x ?e = (\<Sum>a \<in> ?in. x a)"
      unfolding sb by (simp add: body_value_def)
  qed
  have hol: "\<forall>x dem. pCustomerDemand d c = Some dem \<longrightarrow>
         holds d x ?e = (dem \<le> (\<Sum>a \<in> ?in. x a))"
    using c val by (simp add: holds_def getitem_value_def)
  have mem: "(c, ?e) \<in> set (con_c02_demand_limit_satisfaction inst)"
    using c by (auto simp: fam)
  have emp: "?in = {} \<longrightarrow>
         body ?e = [] \<and>
         (\<forall>x dem. pCustomerDemand d c = Some dem \<and> 0 < dem \<longrightarrow>
            \<not> holds d x ?e \<and> \<not> feasible inst x)"
  proof
    assume e: "?in = {}"
    have b: "body ?e = []" using sb e by simp
    have nh: "\<not> holds d x ?e" if "pCustomerDemand d c = Some dem" "0 < dem" for x dem
      using hol e that by simp
    have nf: "\<not> feasible inst x" if "pCustomerDemand d c = Some dem" "0 < dem" for x dem
    proof
      assume "feasible inst x"
      then have "holds (data inst) x (snd (c, ?e))"
        using mem unfolding feasible_def by blast
      then show False
        using nh [OF that] create_instance_data [OF inst] by simp
    qed
    show "body ?e = [] \<and>
         (\<forall>x dem. pCustomerDemand d c = Some dem \<and> 0 < dem \<longrightarrow>
            \<not> holds d x ?e \<and> \<not> feasible inst x)"
      using b nh nf by blast
  qed
  have rel: "relation ?e = GreaterEq" and bnd: "bound ?e = Ref_pCustomerDemand c"
    and db': "distinct (body ?e)" and sb': "set (body ?e) = ?in"
    using db sb by simp_all
  have "filter (\<lambda>ic. fst ic = c) (con_c02_demand_limit_satisfaction inst) = [(c, ?e)] \<and>
      relation ?e = GreaterEq \<and> bound ?e = Ref_pCustomerDemand c \<and>
      distinct (body ?e) \<and> set (body ?e) = ?in \<and>
      (\<forall>x. body_value x ?e = (\<Sum>a \<in> ?in. x a)) \<and>
      (\<forall>x dem. pCustomerDemand d c = Some dem \<longrightarrow>
         holds d x ?e = (dem \<le> (\<Sum>a \<in> ?in. x a))) \<and>
      (?in = {} \<longrightarrow>
         body ?e = [] \<and>
         (\<forall>x dem. pCustomerDemand d c = Some dem \<and> 0 < dem \<longrightarrow>
            \<not> holds d x ?e \<and> \<not> feasible inst x))"
    by (intro conjI) (rule one, rule rel, rule bnd, rule db', rule sb', rule val, rule hol, rule emp)
  then show ?thesis
    using keys by blast
qed

theorem capacity_constraint_one_per_source_witness:
  "\<exists>c. filter (\<lambda>ic. fst ic = ''Rot'') (con_c01_production_limit_satisfaction isolated_instance)
          = [(''Rot'', c)] \<and>
       relation c = LessEq \<and> bound c = Ref_pSourceProduction ''Rot'' \<and> body c = [] \<and>
       (\<forall>x. body_value x c = 0) \<and> (\<forall>x. holds isolated_data x c)"
proof -
  have h2: "distinct (sSources isolated_data)" and h3: "distinct (sCustomers isolated_data)"
    and h5: "''Rot'' \<in> set (sSources isolated_data)"
    and cap: "pSourceProduction isolated_data ''Rot'' = Some 50"
    by (simp_all add: isolated_data_def)
  have e: "{a \<in> set (sSources_sCustomers isolated_data).
              fst a = ''Rot'' \<and> snd a \<in> set (sCustomers isolated_data)} = {}"
    by (auto simp: isolated_data_def)
  obtain c where c:
    "filter (\<lambda>ic. fst ic = ''Rot'') (con_c01_production_limit_satisfaction isolated_instance)
       = [(''Rot'', c)]"
    "relation c = LessEq" "bound c = Ref_pSourceProduction ''Rot''"
    "{a \<in> set (sSources_sCustomers isolated_data).
        fst a = ''Rot'' \<and> snd a \<in> set (sCustomers isolated_data)} = {} \<longrightarrow>
         body c = [] \<and> (\<forall>x. body_value x c = 0) \<and>
         (\<forall>x cap. pSourceProduction isolated_data ''Rot'' = Some cap \<longrightarrow>
            holds isolated_data x c = (0 \<le> cap))"
    using capacity_constraint_one_per_source [OF create_isolated_instance h2 h3 h5] by blast
  have "body c = []" and "\<forall>x. body_value x c = 0" and "\<forall>x. holds isolated_data x c"
    using c(4) e cap by simp_all
  then show ?thesis
    using c(1,2,3) by blast
qed

theorem demand_constraint_one_per_customer_witness:
  "\<exists>e. filter (\<lambda>ic. fst ic = ''Ber'') (con_c02_demand_limit_satisfaction isolated_instance)
          = [(''Ber'', e)] \<and>
       relation e = GreaterEq \<and> bound e = Ref_pCustomerDemand ''Ber'' \<and> body e = [] \<and>
       (\<forall>x. \<not> holds isolated_data x e) \<and> (\<forall>x. \<not> feasible isolated_instance x)"
proof -
  have h2: "distinct (sSources isolated_data)" and h3: "distinct (sCustomers isolated_data)"
    and h5: "''Ber'' \<in> set (sCustomers isolated_data)"
    and dem: "pCustomerDemand isolated_data ''Ber'' = Some 200"
    by (simp_all add: isolated_data_def)
  have emp: "{a \<in> set (sSources_sCustomers isolated_data).
              snd a = ''Ber'' \<and> fst a \<in> set (sSources isolated_data)} = {}"
    by (auto simp: isolated_data_def)
  obtain e where e:
    "filter (\<lambda>ic. fst ic = ''Ber'') (con_c02_demand_limit_satisfaction isolated_instance)
       = [(''Ber'', e)]"
    "relation e = GreaterEq" "bound e = Ref_pCustomerDemand ''Ber''"
    "{a \<in> set (sSources_sCustomers isolated_data).
        snd a = ''Ber'' \<and> fst a \<in> set (sSources isolated_data)} = {} \<longrightarrow>
         body e = [] \<and>
         (\<forall>x dem. pCustomerDemand isolated_data ''Ber'' = Some dem \<and> 0 < dem \<longrightarrow>
            \<not> holds isolated_data x e \<and> \<not> feasible isolated_instance x)"
    using demand_constraint_one_per_customer [OF create_isolated_instance h2 h3 h5] by blast
  have "body e = []" and "\<forall>x. \<not> holds isolated_data x e"
    and "\<forall>x. \<not> feasible isolated_instance x"
    using e(4) emp dem by simp_all
  then show ?thesis
    using e(1,2,3) by blast
qed

lemma c03_result_cases:
  "snd (c03_fixed_transportations d s c) =
     (if (s, c) \<in> set (sSources_sCustomers d)
      then (case pFixedTransportation d (s, c) of
              None \<Rightarrow> Inl ValueError
            | Some v \<Rightarrow>
                if v \<noteq> 0
                then Inr (Constraint_Expr \<lparr>body = [(s, c)], relation = Equal,
                                           bound = Ref_pFixedTransportation (s, c)\<rparr>)
                else Inr Constraint_Skip)
      else Inr Constraint_Skip)"
  by (simp add: c03_fixed_transportations_def getitem_value_def split: option.splits)

lemma c03_error_is_ValueError:
  "snd (c03_fixed_transportations d s c) = Inl e \<Longrightarrow>
     e = ValueError \<and> (s, c) \<in> set (sSources_sCustomers d) \<and> pFixedTransportation d (s, c) = None"
  by (simp add: c03_result_cases split: if_splits option.splits)


lemma create_instance_Inl:
  assumes "create_instance d = Inl e"
  shows "(e = RuntimeError \<and> \<not> params_within_index d) \<or>
    (e = ValueError \<and> params_within_index d \<and>
     (\<exists>a \<in> set (sSources_sCustomers d) \<inter> (set (sSources d) \<times> set (sCustomers d)).
        pFixedTransportation d a = None))"
proof (cases "params_within_index d")
  case False
  then show ?thesis using assms by (simp add: create_instance_unfold)
next
  case True
  then have "construct_constraint (\<lambda>(s, c). snd (c03_fixed_transportations d s c))
             (List.product (sSources d) (sCustomers d)) = Inl e"
    using assms by (simp add: create_instance_unfold split: sum.splits)
  then obtain i where i: "i \<in> set (List.product (sSources d) (sCustomers d))"
      and r: "(\<lambda>(s, c). snd (c03_fixed_transportations d s c)) i = Inl e"
    using construct_constraint_Inl by blast
  obtain s c where sc: "i = (s, c)" by (cases i)
  have "e = ValueError \<and> (s, c) \<in> set (sSources_sCustomers d) \<and> pFixedTransportation d (s, c) = None"
    using r sc c03_error_is_ValueError by simp
  then show ?thesis
    using i sc True by auto
qed

lemma create_instance_Inr_c03:
  assumes "create_instance d = Inr inst"
  shows "(\<forall>a \<in> set (sSources_sCustomers d) \<inter> (set (sSources d) \<times> set (sCustomers d)).
            pFixedTransportation d a \<noteq> None)"
    and "set (con_c03_fixed_transportations inst) =
           {((s, c), e). s \<in> set (sSources d) \<and> c \<in> set (sCustomers d) \<and>
              snd (c03_fixed_transportations d s c) = Inr (Constraint_Expr e)}"
    and "map fst (con_c03_fixed_transportations inst) =
           filter (\<lambda>i. \<exists>e. (\<lambda>(s, c). snd (c03_fixed_transportations d s c)) i = Inr (Constraint_Expr e))
             (List.product (sSources d) (sCustomers d))"
proof -
  let ?rule = "\<lambda>(s, c). snd (c03_fixed_transportations d s c)"
  let ?cross = "List.product (sSources d) (sCustomers d)"
  have c: "construct_constraint ?rule ?cross = Inr (con_c03_fixed_transportations inst)"
    using assms by (auto simp: create_instance_unfold split: if_splits sum.splits)
  note facts = construct_constraint_Inr [OF c]
  show "\<forall>a \<in> set (sSources_sCustomers d) \<inter> (set (sSources d) \<times> set (sCustomers d)).
            pFixedTransportation d a \<noteq> None"
  proof
    fix a assume a: "a \<in> set (sSources_sCustomers d) \<inter> (set (sSources d) \<times> set (sCustomers d))"
    obtain s c where sc: "a = (s, c)" by (cases a)
    have "a \<in> set ?cross" using a by auto
    then obtain r where "?rule a = Inr r" using facts by blast
    then show "pFixedTransportation d a \<noteq> None"
      using a sc by (auto simp: c03_result_cases split: option.splits)
  qed
  show "set (con_c03_fixed_transportations inst) =
           {((s, c), e). s \<in> set (sSources d) \<and> c \<in> set (sCustomers d) \<and>
              snd (c03_fixed_transportations d s c) = Inr (Constraint_Expr e)}"
    using facts by auto
  show "map fst (con_c03_fixed_transportations inst) =
           filter (\<lambda>i. \<exists>e. ?rule i = Inr (Constraint_Expr e)) ?cross"
    using facts by blast
qed

lemma create_instance_succeeds:
  assumes "params_within_index d"
    and "\<forall>a \<in> set (sSources_sCustomers d) \<inter> (set (sSources d) \<times> set (sCustomers d)).
            pFixedTransportation d a \<noteq> None"
  shows "\<exists>inst. create_instance d = Inr inst"
proof (cases "create_instance d")
  case (Inl e)
  then show ?thesis using create_instance_Inl [OF Inl] assms by blast
next
  case (Inr inst)
  then show ?thesis by blast
qed

subsection \<open>Fixed quantities\<close>

text \<open>
  Claim C1, as stated, fails where the fixed quantity of a declared arc is absent: the rule
  does not skip the pair, it raises \<open>ValueError\<close>, and no instance is built.
\<close>

theorem fixed_flow_absent_counterexample:
  "(''Arn'', ''Ams'') \<in> set (sSources_sCustomers missing_fixed_data) \<and>
   ''Arn'' \<in> set (sSources missing_fixed_data) \<and>
   ''Ams'' \<in> set (sCustomers missing_fixed_data) \<and>
   pFixedTransportation missing_fixed_data (''Arn'', ''Ams'') = None \<and>
   snd (c03_fixed_transportations missing_fixed_data ''Arn'' ''Ams'') = Inl ValueError \<and>
   snd (c03_fixed_transportations missing_fixed_data ''Arn'' ''Ams'') \<noteq> Inr Constraint_Skip \<and>
   create_instance missing_fixed_data = Inl ValueError"
  by (simp add: create_instance_def missing_fixed_data_def rule_defs)

lemma c03_emits_iff: "(snd (c03_fixed_transportations d s c) = Inr (Constraint_Expr e)) \<longleftrightarrow>
      ((s, c) \<in> set (sSources_sCustomers d) \<and> (\<exists>v. pFixedTransportation d (s, c) = Some v \<and> v \<noteq> 0) \<and> e = \<lparr>body = [(s, c)], relation = Equal, bound = Ref_pFixedTransportation (s, c)\<rparr>)"
  by (cases "pFixedTransportation d (s, c)") (auto simp: c03_result_cases)

lemma fixed_constraint_holds: "(s, c) \<in> set (sSources_sCustomers d) \<Longrightarrow> holds d x \<lparr>body = [(s, c)], relation = Equal, bound = Ref_pFixedTransportation (s, c)\<rparr> \<longleftrightarrow> pFixedTransportation d (s, c) = Some (x (s, c))"
  by (cases "pFixedTransportation d (s, c)") (auto simp: holds_def body_value_def getitem_value_def)

text \<open>
  Claim C1, amended. For a source \<open>s\<close> and a customer \<open>c\<close>, the rule returns the
  equality constraint (the flow on the arc equals its fixed quantity) if and only if the
  pair is a declared arc whose fixed quantity is present and not zero; a pair that is not
  declared, or whose fixed quantity is zero, is skipped, so a fixed quantity of zero means
  that nothing is required. A declared arc whose fixed quantity is absent is not skipped:
  the rule raises \<open>ValueError\<close> and the formulation fails (with that error, unless
  the data already failed to load into the parameters). In a formulated instance the
  component holds a constraint at the pair exactly in the first case, and it is that
  equality.
\<close>
theorem fixed_flow_constraint_iff:
  assumes s: "s \<in> set (sSources d)" and c: "c \<in> set (sCustomers d)"
  shows
   "((\<exists>e. snd (c03_fixed_transportations d s c) = Inr (Constraint_Expr e)) \<longleftrightarrow>
       ((s, c) \<in> set (sSources_sCustomers d) \<and>
        (\<exists>v. pFixedTransportation d (s, c) = Some v \<and> v \<noteq> 0))) \<and>
    (\<forall>e. snd (c03_fixed_transportations d s c) = Inr (Constraint_Expr e) \<longrightarrow>
       e = \<lparr>body = [(s, c)], relation = Equal, bound = Ref_pFixedTransportation (s, c)\<rparr> \<and>
       (\<forall>x. holds d x e \<longleftrightarrow> pFixedTransportation d (s, c) = Some (x (s, c)))) \<and>
    ((s, c) \<notin> set (sSources_sCustomers d) \<or> pFixedTransportation d (s, c) = Some 0 \<longrightarrow>
       snd (c03_fixed_transportations d s c) = Inr Constraint_Skip) \<and>
    ((s, c) \<in> set (sSources_sCustomers d) \<and> pFixedTransportation d (s, c) = None \<longrightarrow>
       snd (c03_fixed_transportations d s c) = Inl ValueError \<and>
       create_instance d =
         (if params_within_index d then Inl ValueError else Inl RuntimeError)) \<and>
    (\<forall>inst. create_instance d = Inr inst \<longrightarrow>
       (\<forall>e. ((s, c), e) \<in> set (con_c03_fixed_transportations inst) \<longleftrightarrow>
          ((s, c) \<in> set (sSources_sCustomers d) \<and>
           (\<exists>v. pFixedTransportation d (s, c) = Some v \<and> v \<noteq> 0) \<and>
           e = \<lparr>body = [(s, c)], relation = Equal, bound = Ref_pFixedTransportation (s, c)\<rparr>)))"
proof -
  let ?r = "snd (c03_fixed_transportations d s c)"
  let ?A = "set (sSources_sCustomers d)"
  let ?fix = "\<lparr>body = [(s, c)], relation = Equal, bound = Ref_pFixedTransportation (s, c)\<rparr>"
  have p1: "(\<exists>e. ?r = Inr (Constraint_Expr e)) \<longleftrightarrow>
       ((s, c) \<in> ?A \<and> (\<exists>v. pFixedTransportation d (s, c) = Some v \<and> v \<noteq> 0))"
    unfolding c03_emits_iff by blast
  have p2: "\<forall>e. ?r = Inr (Constraint_Expr e) \<longrightarrow>
       e = ?fix \<and> (\<forall>x. holds d x e \<longleftrightarrow> pFixedTransportation d (s, c) = Some (x (s, c)))"
  proof (intro allI impI)
    fix e assume "?r = Inr (Constraint_Expr e)"
    then have "(s, c) \<in> ?A" and "e = ?fix"
      unfolding c03_emits_iff by blast+
    then show "e = ?fix \<and> (\<forall>x. holds d x e \<longleftrightarrow> pFixedTransportation d (s, c) = Some (x (s, c)))"
      using fixed_constraint_holds by blast
  qed
  have p3: "(s, c) \<notin> ?A \<or> pFixedTransportation d (s, c) = Some 0 \<longrightarrow> ?r = Inr Constraint_Skip"
    by (auto simp: c03_result_cases)
  have p4: "(s, c) \<in> ?A \<and> pFixedTransportation d (s, c) = None \<longrightarrow>
       ?r = Inl ValueError \<and>
       create_instance d = (if params_within_index d then Inl ValueError else Inl RuntimeError)"
  proof
    assume a: "(s, c) \<in> ?A \<and> pFixedTransportation d (s, c) = None"
    then have r: "?r = Inl ValueError" by (simp add: c03_result_cases)
    have "create_instance d = (if params_within_index d then Inl ValueError else Inl RuntimeError)"
    proof (cases "create_instance d")
      case (Inl e)
      then show ?thesis using create_instance_Inl [OF Inl] by auto
    next
      case (Inr inst)
      have "(s, c) \<in> ?A \<inter> (set (sSources d) \<times> set (sCustomers d))"
        using a s c by simp
      then have "pFixedTransportation d (s, c) \<noteq> None"
        using create_instance_Inr_c03(1) [OF Inr] by blast
      then show ?thesis using a by simp
    qed
    then show "?r = Inl ValueError \<and>
       create_instance d = (if params_within_index d then Inl ValueError else Inl RuntimeError)"
      using r by simp
  qed
  have p5: "\<forall>inst. create_instance d = Inr inst \<longrightarrow>
       (\<forall>e. ((s, c), e) \<in> set (con_c03_fixed_transportations inst) \<longleftrightarrow>
          ((s, c) \<in> ?A \<and> (\<exists>v. pFixedTransportation d (s, c) = Some v \<and> v \<noteq> 0) \<and> e = ?fix))"
  proof (intro allI impI)
    fix inst e assume i: "create_instance d = Inr inst"
    have "((s, c), e) \<in> set (con_c03_fixed_transportations inst) \<longleftrightarrow> ?r = Inr (Constraint_Expr e)"
      unfolding create_instance_Inr_c03(2) [OF i] using s c by simp
    then show "((s, c), e) \<in> set (con_c03_fixed_transportations inst) \<longleftrightarrow>
          ((s, c) \<in> ?A \<and> (\<exists>v. pFixedTransportation d (s, c) = Some v \<and> v \<noteq> 0) \<and> e = ?fix)"
      unfolding c03_emits_iff .
  qed
  show ?thesis
    by (intro conjI) (rule p1, rule p2, rule p3, rule p4, rule p5)
qed

theorem fixed_flow_constraint_iff_witness:
  "(\<exists>e. snd (c03_fixed_transportations fixed_data ''Arn'' ''Ams'') = Inr (Constraint_Expr e)) \<and>
   snd (c03_fixed_transportations fixed_data ''Gou'' ''Ams'') = Inr Constraint_Skip \<and>
   ((''Arn'', ''Ams''),
      \<lparr>body = [(''Arn'', ''Ams'')], relation = Equal,
       bound = Ref_pFixedTransportation (''Arn'', ''Ams'')\<rparr>)
     \<in> set (con_c03_fixed_transportations fixed_instance)"
proof -
  have s1: "''Arn'' \<in> set (sSources fixed_data)" and s2: "''Gou'' \<in> set (sSources fixed_data)"
    and c: "''Ams'' \<in> set (sCustomers fixed_data)"
    and a1: "(''Arn'', ''Ams'') \<in> set (sSources_sCustomers fixed_data)"
    and f1: "pFixedTransportation fixed_data (''Arn'', ''Ams'') = Some 1"
    and f2: "pFixedTransportation fixed_data (''Gou'', ''Ams'') = Some 0"
    by (simp_all add: fixed_data_def)
  note arn = fixed_flow_constraint_iff [OF s1 c]
  note gou = fixed_flow_constraint_iff [OF s2 c]
  have w1: "\<exists>e. snd (c03_fixed_transportations fixed_data ''Arn'' ''Ams'') = Inr (Constraint_Expr e)"
    using arn [THEN conjunct1] a1 f1 by simp
  have w2: "snd (c03_fixed_transportations fixed_data ''Gou'' ''Ams'') = Inr Constraint_Skip"
    using gou [THEN conjunct2, THEN conjunct2, THEN conjunct1] f2 by simp
  have w3: "((''Arn'', ''Ams''),
      \<lparr>body = [(''Arn'', ''Ams'')], relation = Equal,
       bound = Ref_pFixedTransportation (''Arn'', ''Ams'')\<rparr>)
     \<in> set (con_c03_fixed_transportations fixed_instance)"
    using arn [THEN conjunct2, THEN conjunct2, THEN conjunct2, THEN conjunct2]
      create_fixed_instance a1 f1 by simp
  show ?thesis
    by (intro conjI) (rule w1, rule w2, rule w3)
qed


lemma obj_expression_terms:
  "terms (obj_expression d) =
     concat (map (\<lambda>s. map (\<lambda>c. (Ref_pTransportationCosts (s, c), (s, c)))
                          (filter (\<lambda>c. (s, c) \<in> set (sSources_sCustomers d)) (sCustomers d)))
                 (sSources d))"
  by (simp add: obj_expression_def concat_map_if)

lemma c03_subscripts:
  "g \<in> set (fst (c03_fixed_transportations d s c)) \<Longrightarrow>
     (s, c) \<in> set (sSources_sCustomers d) \<and>
     (g = Get_pFixedTransportation (s, c) \<or> g = Get_vQuantityExchangedSourceCustomer (s, c))"
  by (cases "pFixedTransportation d (s, c)")
     (auto simp: c03_fixed_transportations_def getitem_value_def split: if_splits)

text \<open>
  Claim C10. For a pair that is not a declared arc, the rule returns
  \<open>Constraint.Skip\<close> without a single subscript operation, although reading
  \<open>pFixedTransportation\<close> at that pair would raise \<open>KeyError\<close>. No call of the
  rule, at any pair, indexes the parameter or the variable at an undeclared pair; and a
  formulated instance has no variable and no fixed-quantity constraint at an undeclared
  pair, nor does the pair occur in the body of a constraint or in the objective.
\<close>

theorem undeclared_pair_skipped_unread:
  assumes nd: "(s, c) \<notin> set (sSources_sCustomers d)"
  shows "c03_fixed_transportations d s c = ([], Inr Constraint_Skip) \<and>
    param_value d (Ref_pFixedTransportation (s, c)) = Inl KeyError \<and>
    (\<forall>s' c'. Get_pFixedTransportation (s, c) \<notin> set (fst (c03_fixed_transportations d s' c')) \<and>
             Get_vQuantityExchangedSourceCustomer (s, c)
               \<notin> set (fst (c03_fixed_transportations d s' c'))) \<and>
    (\<forall>inst. create_instance d = Inr inst \<longrightarrow>
       (s, c) \<notin> set (vQuantityExchangedSourceCustomer inst) \<and>
       (s, c) \<notin> fst ` set (con_c03_fixed_transportations inst) \<and>
       (\<forall>ic \<in> set (con_c01_production_limit_satisfaction inst). (s, c) \<notin> set (body (snd ic))) \<and>
       (\<forall>ic \<in> set (con_c02_demand_limit_satisfaction inst). (s, c) \<notin> set (body (snd ic))) \<and>
       (\<forall>ic \<in> set (con_c03_fixed_transportations inst). (s, c) \<notin> set (body (snd ic))) \<and>
       (s, c) \<notin> snd ` set (terms (f_obj inst)) \<and>
       Ref_pTransportationCosts (s, c) \<notin> fst ` set (terms (f_obj inst)))"
proof -
  let ?A = "set (sSources_sCustomers d)"
  have p1: "c03_fixed_transportations d s c = ([], Inr Constraint_Skip)"
    using nd by (simp add: c03_fixed_transportations_def)
  have p2: "param_value d (Ref_pFixedTransportation (s, c)) = Inl KeyError"
    using nd by (simp add: getitem_value_def)
  have p3: "\<forall>s' c'. Get_pFixedTransportation (s, c) \<notin> set (fst (c03_fixed_transportations d s' c')) \<and>
             Get_vQuantityExchangedSourceCustomer (s, c)
               \<notin> set (fst (c03_fixed_transportations d s' c'))"
    using nd c03_subscripts by blast
  have p4: "\<forall>inst. create_instance d = Inr inst \<longrightarrow>
       (s, c) \<notin> set (vQuantityExchangedSourceCustomer inst) \<and>
       (s, c) \<notin> fst ` set (con_c03_fixed_transportations inst) \<and>
       (\<forall>ic \<in> set (con_c01_production_limit_satisfaction inst). (s, c) \<notin> set (body (snd ic))) \<and>
       (\<forall>ic \<in> set (con_c02_demand_limit_satisfaction inst). (s, c) \<notin> set (body (snd ic))) \<and>
       (\<forall>ic \<in> set (con_c03_fixed_transportations inst). (s, c) \<notin> set (body (snd ic))) \<and>
       (s, c) \<notin> snd ` set (terms (f_obj inst)) \<and>
       Ref_pTransportationCosts (s, c) \<notin> fst ` set (terms (f_obj inst))"
  proof (intro allI impI)
    fix inst assume i: "create_instance d = Inr inst"
    have c03: "k \<in> ?A \<and> e = \<lparr>body = [k], relation = Equal, bound = Ref_pFixedTransportation k\<rparr>"
      if "(k, e) \<in> set (con_c03_fixed_transportations inst)" for k e
    proof -
      obtain s' c' where k: "k = (s', c')" by (cases k)
      have "snd (c03_fixed_transportations d s' c') = Inr (Constraint_Expr e)"
        using that k unfolding create_instance_Inr_c03(2) [OF i] by simp
      then show ?thesis
        unfolding c03_emits_iff k by simp
    qed
    have q1: "(s, c) \<notin> set (vQuantityExchangedSourceCustomer inst)"
      using nd unfolding create_instance_vars [OF i] .
    have q2: "(s, c) \<notin> fst ` set (con_c03_fixed_transportations inst)"
      using c03 nd by force
    have q3: "\<forall>ic \<in> set (con_c01_production_limit_satisfaction inst). (s, c) \<notin> set (body (snd ic))"
      unfolding create_instance_c01 [OF i] using nd by auto
    have q4: "\<forall>ic \<in> set (con_c02_demand_limit_satisfaction inst). (s, c) \<notin> set (body (snd ic))"
      unfolding create_instance_c02 [OF i] using nd by auto
    have q5: "\<forall>ic \<in> set (con_c03_fixed_transportations inst). (s, c) \<notin> set (body (snd ic))"
    proof
      fix ic assume ic: "ic \<in> set (con_c03_fixed_transportations inst)"
      obtain k e where ke: "ic = (k, e)" by (cases ic)
      have "k \<in> ?A" and "body e = [k]"
        using c03 [of k e] ic ke by simp_all
      then show "(s, c) \<notin> set (body (snd ic))"
        using nd ke by auto
    qed
    have obj: "f_obj inst = obj_expression d"
      using i by (rule create_instance_f_obj)
    have q6: "(s, c) \<notin> snd ` set (terms (f_obj inst))"
      unfolding obj obj_expression_terms using nd by auto
    have q7: "Ref_pTransportationCosts (s, c) \<notin> fst ` set (terms (f_obj inst))"
      unfolding obj obj_expression_terms using nd by auto
    show "(s, c) \<notin> set (vQuantityExchangedSourceCustomer inst) \<and>
       (s, c) \<notin> fst ` set (con_c03_fixed_transportations inst) \<and>
       (\<forall>ic \<in> set (con_c01_production_limit_satisfaction inst). (s, c) \<notin> set (body (snd ic))) \<and>
       (\<forall>ic \<in> set (con_c02_demand_limit_satisfaction inst). (s, c) \<notin> set (body (snd ic))) \<and>
       (\<forall>ic \<in> set (con_c03_fixed_transportations inst). (s, c) \<notin> set (body (snd ic))) \<and>
       (s, c) \<notin> snd ` set (terms (f_obj inst)) \<and>
       Ref_pTransportationCosts (s, c) \<notin> fst ` set (terms (f_obj inst))"
      by (intro conjI) (rule q1, rule q2, rule q3, rule q4, rule q5, rule q6, rule q7)
  qed
  show ?thesis
    by (intro conjI) (rule p1, rule p2, rule p3, rule p4)
qed

theorem undeclared_pair_skipped_unread_witness:
  "(''Arn'', ''Lon'') \<in> set (sSources base_data) \<times> set (sCustomers base_data) \<and>
   c03_fixed_transportations base_data ''Arn'' ''Lon'' = ([], Inr Constraint_Skip) \<and>
   param_value base_data (Ref_pFixedTransportation (''Arn'', ''Lon'')) = Inl KeyError \<and>
   (''Arn'', ''Lon'') \<notin> set (vQuantityExchangedSourceCustomer base_instance) \<and>
   (''Arn'', ''Lon'') \<notin> fst ` set (con_c03_fixed_transportations base_instance)"
proof -
  have nd: "(''Arn'', ''Lon'') \<notin> set (sSources_sCustomers base_data)"
    and cross: "(''Arn'', ''Lon'') \<in> set (sSources base_data) \<times> set (sCustomers base_data)"
    by (simp_all add: base_data_def)
  note u = undeclared_pair_skipped_unread [OF nd]
  have w1: "c03_fixed_transportations base_data ''Arn'' ''Lon'' = ([], Inr Constraint_Skip)"
    using u by (rule conjunct1)
  have w2: "param_value base_data (Ref_pFixedTransportation (''Arn'', ''Lon'')) = Inl KeyError"
    using u [THEN conjunct2] by (rule conjunct1)
  have w34: "(''Arn'', ''Lon'') \<notin> set (vQuantityExchangedSourceCustomer base_instance) \<and>
   (''Arn'', ''Lon'') \<notin> fst ` set (con_c03_fixed_transportations base_instance)"
    using u [THEN conjunct2, THEN conjunct2, THEN conjunct2] create_base_instance by blast
  show ?thesis
    using cross w1 w2 w34 by blast
qed

lemma print_failed_reply:
  "print_results inst failed_reply =
     ([Print [Str newline],
       Print [Str ''Solver status: '', Tok_status Status_error],
       Print [Str ''Termination condition: '', Tok_termination TC_error]], None)"
  by (simp add: print_results_def failed_reply_def)

subsection \<open>Malformed data\<close>

text \<open>
  Claim C3, as stated, fails: data with an arc from an unknown source, an arc to an unknown
  customer, a negative capacity, a negative demand and a negative fixed quantity is
  formulated without an exception, and the solver is called on the instance.
\<close>

theorem schema_violation_counterexample:
  "(''Xxx'', ''Ams'') \<in> set (sSources_sCustomers malformed_data) \<and>
   ''Xxx'' \<notin> set (sSources malformed_data) \<and>
   (''Arn'', ''Yyy'') \<in> set (sSources_sCustomers malformed_data) \<and>
   ''Yyy'' \<notin> set (sCustomers malformed_data) \<and>
   pSourceProduction malformed_data ''Arn'' = Some (- 400) \<and>
   pCustomerDemand malformed_data ''Ams'' = Some (- 300) \<and>
   pFixedTransportation malformed_data (''Arn'', ''Ams'') = Some (- 5) \<and>
   create_instance malformed_data = Inr malformed_instance \<and>
   solve_problem_and_print_results failing_solver malformed_data =
     \<lparr>stdout = [Print [Str newline],
                 Print [Str ''Solver status: '', Tok_status Status_error],
                 Print [Str ''Termination condition: '', Tok_termination TC_error]],
      raised = None,
      solver_calls = [malformed_instance]\<rparr>"
proof -
  have d: "(''Xxx'', ''Ams'') \<in> set (sSources_sCustomers malformed_data) \<and>
   ''Xxx'' \<notin> set (sSources malformed_data) \<and>
   (''Arn'', ''Yyy'') \<in> set (sSources_sCustomers malformed_data) \<and>
   ''Yyy'' \<notin> set (sCustomers malformed_data) \<and>
   pSourceProduction malformed_data ''Arn'' = Some (- 400) \<and>
   pCustomerDemand malformed_data ''Ams'' = Some (- 300) \<and>
   pFixedTransportation malformed_data (''Arn'', ''Ams'') = Some (- 5)"
    by (simp add: malformed_data_def)
  have r: "solve_problem_and_print_results failing_solver malformed_data =
     \<lparr>stdout = [Print [Str newline],
                 Print [Str ''Solver status: '', Tok_status Status_error],
                 Print [Str ''Termination condition: '', Tok_termination TC_error]],
      raised = None,
      solver_calls = [malformed_instance]\<rparr>"
    by (simp add: solve_problem_and_print_results_def create_malformed_instance
        failing_solver_def print_failed_reply)
  show ?thesis
    using d create_malformed_instance r by simp
qed

text \<open>
  Claim C3, amended. The formulation checks neither the endpoints of an arc nor the sign of
  a parameter. Whenever the data load into the parameters (every value is keyed inside the
  index set of its parameter) and every declared arc that joins a listed source to a listed
  customer has a fixed quantity, the formulation succeeds, whatever the endpoints of the
  other arcs and the signs of the numbers: the instance carries the data as given, has a
  variable for every declared arc, and the solver is called once, on that instance.
\<close>

theorem malformed_data_is_formulated:
  assumes within: "params_within_index d"
    and fixed: "\<forall>a \<in> set (sSources_sCustomers d) \<inter> (set (sSources d) \<times> set (sCustomers d)).
                  pFixedTransportation d a \<noteq> None"
  shows "\<exists>inst. create_instance d = Inr inst \<and>
      data inst = d \<and>
      vQuantityExchangedSourceCustomer inst = sSources_sCustomers d \<and>
      solve_problem_and_print_results opt_solve d =
        \<lparr>stdout = fst (print_results inst (opt_solve inst)),
         raised = snd (print_results inst (opt_solve inst)),
         solver_calls = [inst]\<rparr>"
proof -
  obtain inst where i: "create_instance d = Inr inst"
    using create_instance_succeeds [OF within fixed] by blast
  have "solve_problem_and_print_results opt_solve d =
        \<lparr>stdout = fst (print_results inst (opt_solve inst)),
         raised = snd (print_results inst (opt_solve inst)),
         solver_calls = [inst]\<rparr>"
    using i by (simp add: solve_problem_and_print_results_def Let_def)
  then show ?thesis
    using i create_instance_data [OF i] create_instance_vars [OF i] by blast
qed

theorem malformed_data_is_formulated_witness:
  "''Xxx'' \<notin> set (sSources malformed_data) \<and>
   pSourceProduction malformed_data ''Arn'' = Some (- 400) \<and>
   (\<exists>inst. create_instance malformed_data = Inr inst \<and>
      data inst = malformed_data \<and>
      (''Xxx'', ''Ams'') \<in> set (vQuantityExchangedSourceCustomer inst) \<and>
      solver_calls (solve_problem_and_print_results failing_solver malformed_data) = [inst])"
proof -
  have within: "params_within_index malformed_data"
    by (simp add: params_within_index_def malformed_data_def)
  have fixed: "\<forall>a \<in> set (sSources_sCustomers malformed_data)
              \<inter> (set (sSources malformed_data) \<times> set (sCustomers malformed_data)).
            pFixedTransportation malformed_data a \<noteq> None"
    by (simp add: malformed_data_def)
  have d: "''Xxx'' \<notin> set (sSources malformed_data)"
    "pSourceProduction malformed_data ''Arn'' = Some (- 400)"
    "(''Xxx'', ''Ams'') \<in> set (sSources_sCustomers malformed_data)"
    by (simp_all add: malformed_data_def)
  obtain inst where i: "create_instance malformed_data = Inr inst"
    "data inst = malformed_data"
    "vQuantityExchangedSourceCustomer inst = sSources_sCustomers malformed_data"
    "solve_problem_and_print_results failing_solver malformed_data =
        \<lparr>stdout = fst (print_results inst (failing_solver inst)),
         raised = snd (print_results inst (failing_solver inst)),
         solver_calls = [inst]\<rparr>"
    using malformed_data_is_formulated [OF within fixed, of failing_solver] by blast
  have "(''Xxx'', ''Ams'') \<in> set (vQuantityExchangedSourceCustomer inst)"
    using i(3) d(3) by simp
  moreover have "solver_calls (solve_problem_and_print_results failing_solver malformed_data) = [inst]"
    using i(4) by simp
  ultimately show ?thesis
    using d(1,2) i(1,2) by blast
qed

subsection \<open>Lists built over the cross product\<close>

lemma cross_comprehension:
  "concat (map (\<lambda>s. concat (map (\<lambda>c. if P (s, c) then [f (s, c)] else []) cs)) ss) =
     map f (concat (map (\<lambda>s. map (Pair s) (filter (\<lambda>c. P (s, c)) cs)) ss))"
  by (simp add: concat_map_if map_concat comp_def)

lemma cross_filter_distinct:
  "distinct ss \<Longrightarrow> distinct cs \<Longrightarrow>
     distinct (concat (map (\<lambda>s. map (Pair s) (filter (\<lambda>c. P (s, c)) cs)) ss))"
proof (induction ss)
  case Nil
  then show ?case by simp
next
  case (Cons s ss)
  have "distinct (map (Pair s) (filter (\<lambda>c. P (s, c)) cs))"
    using Cons.prems(2) by (simp add: distinct_map inj_on_def)
  moreover have "set (map (Pair s) (filter (\<lambda>c. P (s, c)) cs))
      \<inter> set (concat (map (\<lambda>s. map (Pair s) (filter (\<lambda>c. P (s, c)) cs)) ss)) = {}"
    using Cons.prems(1) by auto
  ultimately show ?case
    using Cons by simp
qed

lemma cross_filter_set:
  "set (concat (map (\<lambda>s. map (Pair s) (filter (\<lambda>c. P (s, c)) cs)) ss)) =
     {a \<in> set ss \<times> set cs. P a}"
  by auto

lemma map_e_Inr:
  "map_e f xs = Inr ys \<Longrightarrow> list_all2 (\<lambda>x y. f x = Inr y) xs ys"
  by (induction xs arbitrary: ys) (auto split: sum.splits)

lemma map_e_total:
  "(\<And>x. x \<in> set xs \<Longrightarrow> f x = Inr (g x)) \<Longrightarrow> map_e f xs = Inr (map g xs)"
  by (induction xs) auto

lemma map_of_indexed:
  "i \<in> set is \<Longrightarrow> map_of (map (\<lambda>i. (i, g i)) is) i = Some (g i)"
  by (induction "is") auto

lemma run_steps_Inr:
  "run_steps (Inr out # steps) = (out @ fst (run_steps steps), snd (run_steps steps))"
  by simp


subsection \<open>Objective\<close>

lemma obj_expression_terms_map:
  "terms (obj_expression d) =
     map (\<lambda>a. (Ref_pTransportationCosts a, a))
       (concat (map (\<lambda>s. map (Pair s) (filter (\<lambda>c. (s, c) \<in> set (sSources_sCustomers d)) (sCustomers d)))
                 (sSources d)))"
  unfolding obj_expression_def
  by (simp add: cross_comprehension [of "\<lambda>a. a \<in> set (sSources_sCustomers d)"
        "\<lambda>a. (Ref_pTransportationCosts a, a)", simplified])

lemma dict_quantity_map:
  "dict_quantity_sources_customers inst r =
     map (\<lambda>a. (a, flow r a))
       (concat (map (\<lambda>s. map (Pair s)
                   (filter (\<lambda>c. (s, c) \<in> set (sSources_sCustomers (data inst)) \<and> 0 < flow r (s, c))
                      (sCustomers (data inst))))
                 (sSources (data inst))))"
  unfolding dict_quantity_sources_customers_def
  by (rule cross_comprehension [of "\<lambda>a. a \<in> set (sSources_sCustomers (data inst)) \<and> 0 < flow r a"
        "\<lambda>a. (a, flow r a)", simplified])


lemma declared_cross:
  assumes dS: "distinct ss" and dC: "distinct cs"
  shows "distinct (concat (map (\<lambda>s. map (Pair s) (filter (\<lambda>c. (s, c) \<in> A) cs)) ss))"
    and "set (concat (map (\<lambda>s. map (Pair s) (filter (\<lambda>c. (s, c) \<in> A) cs)) ss)) =
           A \<inter> (set ss \<times> set cs)"
proof -
  show "distinct (concat (map (\<lambda>s. map (Pair s) (filter (\<lambda>c. (s, c) \<in> A) cs)) ss))"
    using cross_filter_distinct [OF dS dC, of "\<lambda>a. a \<in> A"] by simp
  show "set (concat (map (\<lambda>s. map (Pair s) (filter (\<lambda>c. (s, c) \<in> A) cs)) ss)) =
           A \<inter> (set ss \<times> set cs)"
    using cross_filter_set [of "\<lambda>a. a \<in> A" cs ss] by auto
qed

lemma objective_value_sum:
  assumes dS: "distinct (sSources d)" and dC: "distinct (sCustomers d)"
    and costs: "\<forall>a \<in> set (sSources_sCustomers d) \<inter> (set (sSources d) \<times> set (sCustomers d)).
                  pTransportationCosts d a = Some (cost a)"
  shows "objective_value d x (obj_expression d) =
           Inr (\<Sum>a \<in> set (sSources_sCustomers d) \<inter> (set (sSources d) \<times> set (sCustomers d)).
                  cost a * x a)"
proof -
  let ?A = "set (sSources_sCustomers d)"
  let ?L = "concat (map (\<lambda>s. map (Pair s) (filter (\<lambda>c. (s, c) \<in> ?A) (sCustomers d))) (sSources d))"
  have dL: "distinct ?L" and sL: "set ?L = ?A \<inter> (set (sSources d) \<times> set (sCustomers d))"
    using declared_cross [OF dS dC] by blast+
  have "map_e (\<lambda>(p, a). case param_value d p of Inl e \<Rightarrow> Inl e | Inr v \<Rightarrow> Inr (v * x a))
          (map (\<lambda>a. (Ref_pTransportationCosts a, a)) ?L) =
        Inr (map (\<lambda>pa. cost (snd pa) * x (snd pa)) (map (\<lambda>a. (Ref_pTransportationCosts a, a)) ?L))"
  proof (rule map_e_total)
    fix pa assume "pa \<in> set (map (\<lambda>a. (Ref_pTransportationCosts a, a)) ?L)"
    then obtain a where a: "a \<in> ?A \<inter> (set (sSources d) \<times> set (sCustomers d))"
        and pa: "pa = (Ref_pTransportationCosts a, a)"
      using sL by auto
    show "(case pa of (p, a) \<Rightarrow> (case param_value d p of Inl e \<Rightarrow> Inl e | Inr v \<Rightarrow> Inr (v * x a)))
            = Inr (cost (snd pa) * x (snd pa))"
      using a pa costs by (simp add: getitem_value_def)
  qed
  then have "objective_value d x (obj_expression d) = Inr (sum_list (map (\<lambda>a. cost a * x a) ?L))"
    by (simp add: objective_value_def obj_expression_terms_map comp_def)
  moreover have "sum_list (map (\<lambda>a. cost a * x a) ?L) = (\<Sum>a \<in> set ?L. cost a * x a)"
    using dL by (rule sum_list_distinct_conv_sum_set)
  ultimately show ?thesis
    using sL by simp
qed

lemma dict_quantity_set:
  "set (dict_quantity_sources_customers inst r) =
     (\<lambda>a. (a, flow r a)) `
       {a \<in> set (sSources_sCustomers (data inst))
              \<inter> (set (sSources (data inst)) \<times> set (sCustomers (data inst))). 0 < flow r a}"
  unfolding dict_quantity_map
  using cross_filter_set [of "\<lambda>a. a \<in> set (sSources_sCustomers (data inst)) \<and> 0 < flow r a"
      "sCustomers (data inst)" "sSources (data inst)"]
  by auto

lemma dict_quantity_nonempty:
  "dict_quantity_sources_customers inst r \<noteq> [] \<longleftrightarrow>
     (\<exists>a \<in> set (sSources_sCustomers (data inst))
              \<inter> (set (sSources (data inst)) \<times> set (sCustomers (data inst))). 0 < flow r a)"
proof -
  have "dict_quantity_sources_customers inst r \<noteq> [] \<longleftrightarrow>
        set (dict_quantity_sources_customers inst r) \<noteq> {}"
    by simp
  then show ?thesis
    unfolding dict_quantity_set by blast
qed

lemma flow_table_sum:
  assumes dS: "distinct (sSources (data inst))" and dC: "distinct (sCustomers (data inst))"
    and nn: "\<forall>a \<in> set (sSources_sCustomers (data inst))
                 \<inter> (set (sSources (data inst)) \<times> set (sCustomers (data inst))). 0 \<le> flow r a"
  shows "sum_list (map (\<lambda>(a, q). cost a * q) (dict_quantity_sources_customers inst r)) =
           (\<Sum>a \<in> set (sSources_sCustomers (data inst))
                   \<inter> (set (sSources (data inst)) \<times> set (sCustomers (data inst))).
              cost a * flow r a)"
proof -
  let ?A = "set (sSources_sCustomers (data inst))"
  let ?X = "?A \<inter> (set (sSources (data inst)) \<times> set (sCustomers (data inst)))"
  let ?P = "\<lambda>a. a \<in> ?A \<and> 0 < flow r a"
  let ?L = "concat (map (\<lambda>s. map (Pair s) (filter (\<lambda>c. ?P (s, c)) (sCustomers (data inst))))
                 (sSources (data inst)))"
  have dL: "distinct ?L"
    using cross_filter_distinct [OF dS dC, of ?P] by simp
  have sL: "set ?L = {a \<in> ?X. 0 < flow r a}"
    using cross_filter_set [of ?P "sCustomers (data inst)" "sSources (data inst)"] by auto
  have "sum_list (map (\<lambda>(a, q). cost a * q) (dict_quantity_sources_customers inst r)) =
        sum_list (map (\<lambda>a. cost a * flow r a) ?L)"
    unfolding dict_quantity_map by (simp add: comp_def)
  also have "\<dots> = (\<Sum>a \<in> set ?L. cost a * flow r a)"
    using dL by (rule sum_list_distinct_conv_sum_set)
  also have "\<dots> = (\<Sum>a \<in> ?X. if 0 < flow r a then cost a * flow r a else 0)"
    unfolding sL by (rule sum.inter_filter) simp
  also have "\<dots> = (\<Sum>a \<in> ?X. cost a * flow r a)"
  proof (rule sum.cong)
    fix a assume "a \<in> ?X"
    then have "0 \<le> flow r a" using nn by blast
    then show "(if 0 < flow r a then cost a * flow r a else 0) = cost a * flow r a"
      by (cases "0 < flow r a") simp_all
  qed simp
  finally show ?thesis .
qed

text \<open>
  Claim C6, as stated, fails on data the program accepts: the arc from \<open>Arn\<close> to the
  unknown customer \<open>Yyy\<close> is declared and has a cost, yet the objective has no term
  for it, so the sum is not over exactly the declared arcs.
\<close>

theorem objective_arcs_counterexample:
  "create_instance dangling_data = Inr dangling_instance \<and>
   (''Arn'', ''Yyy'') \<in> set (sSources_sCustomers dangling_data) \<and>
   pTransportationCosts dangling_data (''Arn'', ''Yyy'') = Some 1 \<and>
   terms (f_obj dangling_instance) =
     [(Ref_pTransportationCosts (''Arn'', ''Ams''), (''Arn'', ''Ams''))] \<and>
   (Ref_pTransportationCosts (''Arn'', ''Yyy''), (''Arn'', ''Yyy''))
     \<notin> set (terms (f_obj dangling_instance))"
proof -
  have "(''Arn'', ''Yyy'') \<in> set (sSources_sCustomers dangling_data) \<and>
   pTransportationCosts dangling_data (''Arn'', ''Yyy'') = Some 1 \<and>
   terms (f_obj dangling_instance) =
     [(Ref_pTransportationCosts (''Arn'', ''Ams''), (''Arn'', ''Ams''))] \<and>
   (Ref_pTransportationCosts (''Arn'', ''Yyy''), (''Arn'', ''Yyy''))
     \<notin> set (terms (f_obj dangling_instance))"
    by (simp add: dangling_data_def dangling_instance_def)
  then show ?thesis
    using create_dangling_instance by simp
qed

text \<open>
  Claim C6, amended. The objective of a formulated instance is a minimisation; its terms are,
  once each, the products of unit cost and flow of the declared arcs that join a listed
  source to a listed customer, so its value at a flow is the sum of cost times flow over
  these arcs. After an optimal solve the third printed line carries this sum at the solved
  flows. The sum of cost times quantity over the rows of the table of quantities (the arcs
  of positive flow) is the same number, the solved flows being non-negative, and when this
  table has a row it is printed next.
\<close>

theorem objective_total_cost_roundtrip:
  assumes inst: "create_instance d = Inr inst"
    and dS: "distinct (sSources d)" and dC: "distinct (sCustomers d)"
    and costs: "\<forall>a \<in> set (sSources_sCustomers d) \<inter> (set (sSources d) \<times> set (sCustomers d)).
                  pTransportationCosts d a = Some (cost a)"
    and opt: "termination_cond r = TC_optimal" "status r = Status_ok"
  shows "sense (f_obj inst) = Minimize \<and>
    distinct (terms (f_obj inst)) \<and>
    set (terms (f_obj inst)) =
      (\<lambda>a. (Ref_pTransportationCosts a, a)) `
        (set (sSources_sCustomers d) \<inter> (set (sSources d) \<times> set (sCustomers d))) \<and>
    (\<forall>x. objective_value d x (f_obj inst) =
            Inr (\<Sum>a \<in> set (sSources_sCustomers d) \<inter> (set (sSources d) \<times> set (sCustomers d)).
                   cost a * x a)) \<and>
    take 3 (fst (print_results inst r)) =
      [Print [Str ''Solver status: '', Tok_status Status_ok],
       Print [Str ''Termination condition: '', Tok_termination TC_optimal, Str newline],
       Print [Str ''Total transportation cost: '',
              Num (\<Sum>a \<in> set (sSources_sCustomers d) \<inter> (set (sSources d) \<times> set (sCustomers d)).
                     cost a * flow r a),
              Str newline]] \<and>
    ((\<forall>a \<in> set (sSources_sCustomers d) \<inter> (set (sSources d) \<times> set (sCustomers d)).
        0 \<le> flow r a) \<longrightarrow>
       sum_list (map (\<lambda>(a, q). cost a * q) (dict_quantity_sources_customers inst r)) =
         (\<Sum>a \<in> set (sSources_sCustomers d) \<inter> (set (sSources d) \<times> set (sCustomers d)).
            cost a * flow r a)) \<and>
    (dict_quantity_sources_customers inst r \<noteq> [] \<longrightarrow>
       take 3 (drop 3 (fst (print_results inst r))) =
         [Print [Str ''Quantity exchanged between sources and customers:''],
          Print_frame [''Source'', ''Customer'', ''Quantity'']
            (map (\<lambda>((source, customer), quantity).
                    [Cell_str source, Cell_str customer, Cell_num quantity])
                 (dict_quantity_sources_customers inst r)),
          Print [Str newline]])"
proof -
  let ?A = "set (sSources_sCustomers d)"
  let ?X = "?A \<inter> (set (sSources d) \<times> set (sCustomers d))"
  let ?L = "concat (map (\<lambda>s. map (Pair s) (filter (\<lambda>c. (s, c) \<in> ?A) (sCustomers d))) (sSources d))"
  note obj = create_instance_f_obj [OF inst]
  note dat = create_instance_data [OF inst]
  have dL: "distinct ?L" and sL: "set ?L = ?X"
    using declared_cross [OF dS dC] by blast+
  have p1: "sense (f_obj inst) = Minimize"
    by (simp add: obj obj_expression_def)
  have p2: "distinct (terms (f_obj inst))"
    unfolding obj obj_expression_terms_map using dL by (simp add: distinct_map inj_on_def)
  have p3: "set (terms (f_obj inst)) = (\<lambda>a. (Ref_pTransportationCosts a, a)) ` ?X"
    unfolding obj obj_expression_terms_map using sL by simp
  have val: "objective_value d x (f_obj inst) = Inr (\<Sum>a \<in> ?X. cost a * x a)" for x
    unfolding obj using dS dC costs by (rule objective_value_sum)
  have p4: "\<forall>x. objective_value d x (f_obj inst) = Inr (\<Sum>a \<in> ?X. cost a * x a)"
    using val by blast
  have p5: "take 3 (fst (print_results inst r)) =
      [Print [Str ''Solver status: '', Tok_status Status_ok],
       Print [Str ''Termination condition: '', Tok_termination TC_optimal, Str newline],
       Print [Str ''Total transportation cost: '', Num (\<Sum>a \<in> ?X. cost a * flow r a), Str newline]]"
    using opt val [of "flow r"] by (simp add: print_results_def print_optimal_def dat)
  have p6: "(\<forall>a \<in> ?X. 0 \<le> flow r a) \<longrightarrow>
       sum_list (map (\<lambda>(a, q). cost a * q) (dict_quantity_sources_customers inst r)) =
         (\<Sum>a \<in> ?X. cost a * flow r a)"
  proof
    assume nn: "\<forall>a \<in> ?X. 0 \<le> flow r a"
    show "sum_list (map (\<lambda>(a, q). cost a * q) (dict_quantity_sources_customers inst r)) =
         (\<Sum>a \<in> ?X. cost a * flow r a)"
      using flow_table_sum [of inst r cost] dS dC nn unfolding dat by blast
  qed
  have p7: "dict_quantity_sources_customers inst r \<noteq> [] \<longrightarrow>
       take 3 (drop 3 (fst (print_results inst r))) =
         [Print [Str ''Quantity exchanged between sources and customers:''],
          Print_frame [''Source'', ''Customer'', ''Quantity'']
            (map (\<lambda>((source, customer), quantity).
                    [Cell_str source, Cell_str customer, Cell_num quantity])
                 (dict_quantity_sources_customers inst r)),
          Print [Str newline]]"
    using opt val [of "flow r"] by (simp add: print_results_def print_optimal_def dat)
  show ?thesis
    by (intro conjI) (rule p1, rule p2, rule p3, rule p4, rule p5, rule p6, rule p7)
qed

theorem objective_total_cost_roundtrip_witness:
  "objective_value base_data (flow base_reply) (f_obj base_instance) = Inr 10400 \<and>
   fst (print_results base_instance base_reply) ! 2 =
     Print [Str ''Total transportation cost: '', Num 10400, Str newline] \<and>
   sum_list (map (\<lambda>(a, q). the (pTransportationCosts base_data a) * q)
     (dict_quantity_sources_customers base_instance base_reply)) = 10400"
proof -
  let ?cost = "\<lambda>a. the (pTransportationCosts base_data a)"
  let ?X = "set (sSources_sCustomers base_data)
              \<inter> (set (sSources base_data) \<times> set (sCustomers base_data))"
  have X: "?X = set (sSources_sCustomers base_data)"
    by (auto simp: base_data_def)
  have dS: "distinct (sSources base_data)" and dC: "distinct (sCustomers base_data)"
    by (simp_all add: base_data_def)
  have costs: "\<forall>a \<in> ?X. pTransportationCosts base_data a = Some (?cost a)"
    unfolding X by (simp add: base_data_def)
  have opt: "termination_cond base_reply = TC_optimal" "status base_reply = Status_ok"
    by (simp_all add: base_reply_def)
  have nn: "\<forall>a \<in> ?X. 0 \<le> flow base_reply a"
    unfolding X by (simp add: base_data_def base_reply_def)
  have total: "(\<Sum>a \<in> ?X. ?cost a * flow base_reply a) = 10400"
    unfolding X by (simp add: base_data_def base_reply_def)
  note t = objective_total_cost_roundtrip [OF create_base_instance dS dC costs opt]
  have w1: "objective_value base_data (flow base_reply) (f_obj base_instance) = Inr 10400"
    using t [THEN conjunct2, THEN conjunct2, THEN conjunct2, THEN conjunct1] total by simp
  have "take 3 (fst (print_results base_instance base_reply)) ! 2 =
     Print [Str ''Total transportation cost: '', Num 10400, Str newline]"
    using t [THEN conjunct2, THEN conjunct2, THEN conjunct2, THEN conjunct2, THEN conjunct1] total
    by simp
  then have w2: "fst (print_results base_instance base_reply) ! 2 =
     Print [Str ''Total transportation cost: '', Num 10400, Str newline]"
    by simp
  have w3: "sum_list (map (\<lambda>(a, q). ?cost a * q)
     (dict_quantity_sources_customers base_instance base_reply)) = 10400"
    using t [THEN conjunct2, THEN conjunct2, THEN conjunct2, THEN conjunct2, THEN conjunct2,
        THEN conjunct1] nn total
    by simp
  show ?thesis
    by (intro conjI) (rule w1, rule w2, rule w3)
qed

subsection \<open>Report by outcome\<close>

lemmas print_conclusions_defs = print_conclusions_sources_sensibility_analysis_def
  print_conclusions_customers_sensibility_analysis_def
  print_conclusions_routes_sensibility_analysis_def

lemma status_line_no_conclusion:
  "Print [Str ''Solver status: '', t] \<noteq> print_conclusions_sources_sensibility_analysis v s"
  "Print [Str ''Solver status: '', t] \<noteq> print_conclusions_customers_sensibility_analysis v s"
  "Print [Str ''Solver status: '', t] \<noteq> print_conclusions_routes_sensibility_analysis v s c"
  by (simp_all add: print_conclusions_defs)

lemma termination_line_no_conclusion:
  "Print [Str ''Termination condition: '', t] \<noteq> print_conclusions_sources_sensibility_analysis v s"
  "Print [Str ''Termination condition: '', t] \<noteq> print_conclusions_customers_sensibility_analysis v s"
  "Print [Str ''Termination condition: '', t] \<noteq> print_conclusions_routes_sensibility_analysis v s c"
  by (simp_all add: print_conclusions_defs)

lemma short_line_no_conclusion:
  "Print [t] \<noteq> print_conclusions_sources_sensibility_analysis v s"
  "Print [t] \<noteq> print_conclusions_customers_sensibility_analysis v s"
  "Print [t] \<noteq> print_conclusions_routes_sensibility_analysis v s c"
  "Write_results w \<noteq> print_conclusions_sources_sensibility_analysis v s"
  "Write_results w \<noteq> print_conclusions_customers_sensibility_analysis v s"
  "Write_results w \<noteq> print_conclusions_routes_sensibility_analysis v s c"
  by (simp_all add: print_conclusions_defs)

text \<open>
  Claim C9. The tables and conclusions are printed only in the branch taken when the
  termination condition is optimal and the solver status is ok. When the termination
  condition is infeasible the program prints the status, the termination condition and what
  \<open>results.write()\<close> sends out, unchanged; in every other case the status and the
  termination condition only. Outside the optimal branch no data frame and no conclusion
  is printed.
\<close>

theorem report_by_outcome:
  "(termination_cond r = TC_optimal \<and> status r = Status_ok \<longrightarrow>
      print_results inst r = print_optimal inst r) \<and>
   (termination_cond r = TC_infeasible \<longrightarrow>
      print_results inst r =
        ([Print [Str newline],
          Print [Str ''Solver status: '', Tok_status (status r)],
          Print [Str ''Termination condition: '', Tok_termination TC_infeasible],
          Print [Str newline],
          Write_results (written r),
          Print [Tok_None]], None)) \<and>
   (\<not> (termination_cond r = TC_optimal \<and> status r = Status_ok) \<and>
    termination_cond r \<noteq> TC_infeasible \<longrightarrow>
      print_results inst r =
        ([Print [Str newline],
          Print [Str ''Solver status: '', Tok_status (status r)],
          Print [Str ''Termination condition: '', Tok_termination (termination_cond r)]], None)) \<and>
   (\<not> (termination_cond r = TC_optimal \<and> status r = Status_ok) \<longrightarrow>
      (\<forall>p \<in> set (fst (print_results inst r)).
         (\<forall>columns rows. p \<noteq> Print_frame columns rows) \<and>
         (\<forall>v s. p \<noteq> print_conclusions_sources_sensibility_analysis v s) \<and>
         (\<forall>v c. p \<noteq> print_conclusions_customers_sensibility_analysis v c) \<and>
         (\<forall>v s c. p \<noteq> print_conclusions_routes_sensibility_analysis v s c)))"
proof -
  have p1: "termination_cond r = TC_optimal \<and> status r = Status_ok \<longrightarrow>
      print_results inst r = print_optimal inst r"
    by (simp add: print_results_def)
  have p2: "termination_cond r = TC_infeasible \<longrightarrow>
      print_results inst r =
        ([Print [Str newline],
          Print [Str ''Solver status: '', Tok_status (status r)],
          Print [Str ''Termination condition: '', Tok_termination TC_infeasible],
          Print [Str newline],
          Write_results (written r),
          Print [Tok_None]], None)"
    by (simp add: print_results_def)
  have p3: "\<not> (termination_cond r = TC_optimal \<and> status r = Status_ok) \<and>
    termination_cond r \<noteq> TC_infeasible \<longrightarrow>
      print_results inst r =
        ([Print [Str newline],
          Print [Str ''Solver status: '', Tok_status (status r)],
          Print [Str ''Termination condition: '', Tok_termination (termination_cond r)]], None)"
    by (simp add: print_results_def)
  have p4: "\<not> (termination_cond r = TC_optimal \<and> status r = Status_ok) \<longrightarrow>
      (\<forall>p \<in> set (fst (print_results inst r)).
         (\<forall>columns rows. p \<noteq> Print_frame columns rows) \<and>
         (\<forall>v s. p \<noteq> print_conclusions_sources_sensibility_analysis v s) \<and>
         (\<forall>v c. p \<noteq> print_conclusions_customers_sensibility_analysis v c) \<and>
         (\<forall>v s c. p \<noteq> print_conclusions_routes_sensibility_analysis v s c))"
  proof (cases "termination_cond r = TC_infeasible")
    case True
    then show ?thesis
      using p2 status_line_no_conclusion termination_line_no_conclusion short_line_no_conclusion
      by auto
  next
    case False
    then show ?thesis
      using p3 status_line_no_conclusion termination_line_no_conclusion short_line_no_conclusion
      by auto
  qed
  show ?thesis
    by (intro conjI) (rule p1, rule p2, rule p3, rule p4)
qed

theorem report_by_outcome_witness:
  "print_results base_instance infeasible_reply =
     ([Print [Str newline],
       Print [Str ''Solver status: '', Tok_status Status_warning],
       Print [Str ''Termination condition: '', Tok_termination TC_infeasible],
       Print [Str newline],
       Write_results ''Termination condition: infeasible'',
       Print [Tok_None]], None) \<and>
   print_results base_instance failed_reply =
     ([Print [Str newline],
       Print [Str ''Solver status: '', Tok_status Status_error],
       Print [Str ''Termination condition: '', Tok_termination TC_error]], None) \<and>
   print_results base_instance base_reply = print_optimal base_instance base_reply"
proof -
  have w1: "print_results base_instance infeasible_reply =
     ([Print [Str newline],
       Print [Str ''Solver status: '', Tok_status Status_warning],
       Print [Str ''Termination condition: '', Tok_termination TC_infeasible],
       Print [Str newline],
       Write_results ''Termination condition: infeasible'',
       Print [Tok_None]], None)"
    using report_by_outcome [of infeasible_reply base_instance, THEN conjunct2, THEN conjunct1]
    by (simp add: infeasible_reply_def)
  have w2: "print_results base_instance failed_reply =
     ([Print [Str newline],
       Print [Str ''Solver status: '', Tok_status Status_error],
       Print [Str ''Termination condition: '', Tok_termination TC_error]], None)"
    using report_by_outcome [of failed_reply base_instance, THEN conjunct2, THEN conjunct2, THEN conjunct1]
    by (simp add: failed_reply_def)
  have w3: "print_results base_instance base_reply = print_optimal base_instance base_reply"
    using report_by_outcome [of base_reply base_instance, THEN conjunct1]
    by (simp add: base_reply_def)
  show ?thesis
    by (intro conjI) (rule w1, rule w2, rule w3)
qed

subsection \<open>Sensibility tables and conclusions\<close>

lemma c01_getitem:
  assumes inst: "create_instance d = Inr inst" and dC: "distinct (sCustomers d)"
    and s: "s \<in> set (sSources d)"
  shows "\<exists>c. getitem_constraint (con_c01_production_limit_satisfaction inst) s = Inr c \<and>
           constraint_value d x c =
             Inr (\<Sum>a \<in> {a \<in> set (sSources_sCustomers d). fst a = s \<and> snd a \<in> set (sCustomers d)}. x a)"
proof -
  let ?b = "map (Pair s) (filter (\<lambda>c. (s, c) \<in> set (sSources_sCustomers d)) (sCustomers d))"
  let ?c = "\<lparr>body = ?b, relation = LessEq, bound = Ref_pSourceProduction s\<rparr>"
  have g: "getitem_constraint (con_c01_production_limit_satisfaction inst) s = Inr ?c"
    unfolding create_instance_c01 [OF inst] getitem_constraint_def
    by (simp add: map_of_indexed [OF s])
  have "sum_list (map x ?b) = sum x (set ?b)"
    using outgoing_arcs(1) [OF dC] by (rule sum_list_distinct_conv_sum_set)
  then have "constraint_value d x ?c =
      Inr (\<Sum>a \<in> {a \<in> set (sSources_sCustomers d). fst a = s \<and> snd a \<in> set (sCustomers d)}. x a)"
    unfolding outgoing_arcs(2) [OF dC] by (simp add: constraint_value_def body_value_def)
  then show ?thesis
    using g by blast
qed

lemma c02_getitem:
  assumes inst: "create_instance d = Inr inst" and dS: "distinct (sSources d)"
    and c: "c \<in> set (sCustomers d)" and dem: "pCustomerDemand d c = Some demand"
  shows "\<exists>e. getitem_constraint (con_c02_demand_limit_satisfaction inst) c = Inr e \<and>
           constraint_value d x e =
             Inr (if {a \<in> set (sSources_sCustomers d). snd a = c \<and> fst a \<in> set (sSources d)} = {}
                  then demand
                  else (\<Sum>a \<in> {a \<in> set (sSources_sCustomers d). snd a = c \<and> fst a \<in> set (sSources d)}. x a))"
proof -
  let ?in = "{a \<in> set (sSources_sCustomers d). snd a = c \<and> fst a \<in> set (sSources d)}"
  let ?b = "map (\<lambda>s. (s, c)) (filter (\<lambda>s. (s, c) \<in> set (sSources_sCustomers d)) (sSources d))"
  let ?e = "\<lparr>body = ?b, relation = GreaterEq, bound = Ref_pCustomerDemand c\<rparr>"
  have g: "getitem_constraint (con_c02_demand_limit_satisfaction inst) c = Inr ?e"
    unfolding create_instance_c02 [OF inst] getitem_constraint_def
    by (simp add: map_of_indexed [OF c])
  have sb: "set ?b = ?in"
    using dS by (rule incoming_arcs(2))
  have "sum_list (map x ?b) = sum x (set ?b)"
    using incoming_arcs(1) [OF dS] by (rule sum_list_distinct_conv_sum_set)
  then have sum: "body_value x ?e = (\<Sum>a \<in> ?in. x a)"
    unfolding sb by (simp add: body_value_def)
  have emp: "?b = [] \<longleftrightarrow> ?in = {}"
    using set_empty [of ?b] unfolding sb by (rule sym)
  have "constraint_value d x ?e = Inr (if ?in = {} then demand else (\<Sum>a \<in> ?in. x a))"
  proof (cases "?in = {}")
    case True
    then have b: "?b = []" using emp by blast
    have "constraint_value d x ?e = param_value d (Ref_pCustomerDemand c)"
      by (simp add: constraint_value_def b)
    also have "\<dots> = Inr demand"
      using c dem by (simp add: getitem_value_def)
    finally have v: "constraint_value d x ?e = Inr demand" .
    show ?thesis
      unfolding v True by simp
  next
    case False
    then have b: "?b \<noteq> []" using emp by blast
    have v: "constraint_value d x ?e = Inr (body_value x ?e)"
      using b by (simp add: constraint_value_def)
    show ?thesis
      unfolding v sum by (simp only: False if_False)
  qed
  then show ?thesis
    using g by blast
qed

lemma dict_source_complete:
  assumes inst: "create_instance d = Inr inst" and dC: "distinct (sCustomers d)"
    and caps: "\<forall>s \<in> set (sSources d). pSourceProduction d s \<noteq> None"
  shows "dict_source_sensibility_analysis inst r =
    Inr (map (\<lambda>s. (s, the (pSourceProduction d s),
                     (\<Sum>a \<in> {a \<in> set (sSources_sCustomers d). fst a = s \<and> snd a \<in> set (sCustomers d)}.
                        flow r a),
                     dual r (Key_c01 s))) (sSources d))"
  unfolding dict_source_sensibility_analysis_def create_instance_data [OF inst]
proof (rule map_e_total)
  fix s assume s: "s \<in> set (sSources d)"
  let ?out = "{a \<in> set (sSources_sCustomers d). fst a = s \<and> snd a \<in> set (sCustomers d)}"
  obtain cap where cap: "pSourceProduction d s = Some cap"
    using caps s by blast
  define shipped where "shipped = (\<Sum>a \<in> ?out. flow r a)"
  obtain c where c: "getitem_constraint (con_c01_production_limit_satisfaction inst) s = Inr c"
      "constraint_value d (flow r) c = Inr shipped"
    using c01_getitem [OF inst dC s, of "flow r"] unfolding shipped_def by blast
  have p: "param_value d (Ref_pSourceProduction s) = Inr cap"
    using s cap by (simp add: getitem_value_def)
  have "(case param_value d (Ref_pSourceProduction s) of
          Inl e \<Rightarrow> Inl e
        | Inr capacity \<Rightarrow>
            (case getitem_constraint (con_c01_production_limit_satisfaction inst) s of
               Inl e \<Rightarrow> Inl e
             | Inr c \<Rightarrow>
                 (case constraint_value d (flow r) c of
                    Inl e \<Rightarrow> Inl e
                  | Inr shipped \<Rightarrow> Inr (s, capacity, shipped, dual r (Key_c01 s))))) =
        Inr (s, cap, shipped, dual r (Key_c01 s))"
    unfolding p c by (simp add: c)
  then show "(case param_value d (Ref_pSourceProduction s) of
          Inl e \<Rightarrow> Inl e
        | Inr capacity \<Rightarrow>
            (case getitem_constraint (con_c01_production_limit_satisfaction inst) s of
               Inl e \<Rightarrow> Inl e
             | Inr c \<Rightarrow>
                 (case constraint_value d (flow r) c of
                    Inl e \<Rightarrow> Inl e
                  | Inr shipped \<Rightarrow> Inr (s, capacity, shipped, dual r (Key_c01 s))))) =
        Inr (s, the (pSourceProduction d s), (\<Sum>a \<in> ?out. flow r a), dual r (Key_c01 s))"
    unfolding shipped_def cap option.sel .
qed

lemma dict_customers_complete:
  assumes inst: "create_instance d = Inr inst" and dS: "distinct (sSources d)"
    and dems: "\<forall>c \<in> set (sCustomers d). pCustomerDemand d c \<noteq> None"
  shows "dict_customers_sensibility_analysis inst r =
    Inr (map (\<lambda>c. (c, the (pCustomerDemand d c),
                     (if {a \<in> set (sSources_sCustomers d). snd a = c \<and> fst a \<in> set (sSources d)} = {}
                      then the (pCustomerDemand d c)
                      else (\<Sum>a \<in> {a \<in> set (sSources_sCustomers d). snd a = c \<and> fst a \<in> set (sSources d)}.
                              flow r a)),
                     dual r (Key_c02 c))) (sCustomers d))"
  unfolding dict_customers_sensibility_analysis_def create_instance_data [OF inst]
proof (rule map_e_total)
  fix c assume c: "c \<in> set (sCustomers d)"
  let ?in = "{a \<in> set (sSources_sCustomers d). snd a = c \<and> fst a \<in> set (sSources d)}"
  obtain dem where dem: "pCustomerDemand d c = Some dem"
    using dems c by blast
  define shipped where "shipped = (if ?in = {} then dem else (\<Sum>a \<in> ?in. flow r a))"
  obtain e where e: "getitem_constraint (con_c02_demand_limit_satisfaction inst) c = Inr e"
      "constraint_value d (flow r) e = Inr shipped"
    using c02_getitem [OF inst dS c dem, of "flow r"] unfolding shipped_def by blast
  have p: "param_value d (Ref_pCustomerDemand c) = Inr dem"
    using c dem by (simp add: getitem_value_def)
  have "(case param_value d (Ref_pCustomerDemand c) of
          Inl e \<Rightarrow> Inl e
        | Inr demand \<Rightarrow>
            (case getitem_constraint (con_c02_demand_limit_satisfaction inst) c of
               Inl e \<Rightarrow> Inl e
             | Inr e \<Rightarrow>
                 (case constraint_value d (flow r) e of
                    Inl e \<Rightarrow> Inl e
                  | Inr shipped \<Rightarrow> Inr (c, demand, shipped, dual r (Key_c02 c))))) =
        Inr (c, dem, shipped, dual r (Key_c02 c))"
    unfolding p e by (simp add: e)
  then show "(case param_value d (Ref_pCustomerDemand c) of
          Inl e \<Rightarrow> Inl e
        | Inr demand \<Rightarrow>
            (case getitem_constraint (con_c02_demand_limit_satisfaction inst) c of
               Inl e \<Rightarrow> Inl e
             | Inr e \<Rightarrow>
                 (case constraint_value d (flow r) e of
                    Inl e \<Rightarrow> Inl e
                  | Inr shipped \<Rightarrow> Inr (c, demand, shipped, dual r (Key_c02 c))))) =
        Inr (c, the (pCustomerDemand d c),
             (if ?in = {}
              then the (pCustomerDemand d c)
              else (\<Sum>a \<in> ?in. flow r a)),
             dual r (Key_c02 c))"
    unfolding shipped_def dem option.sel .
qed

lemma dict_routes_map:
  "dict_routes_sensibility_analysis inst r =
     map (\<lambda>a. (a, flow r a, rc r a))
       (concat (map (\<lambda>s. map (Pair s)
                   (filter (\<lambda>c. (s, c) \<in> set (sSources_sCustomers (data inst)))
                      (sCustomers (data inst))))
                 (sSources (data inst))))"
  unfolding dict_routes_sensibility_analysis_def
  by (rule cross_comprehension [of "\<lambda>a. a \<in> set (sSources_sCustomers (data inst))"
        "\<lambda>a. (a, flow r a, rc r a)", simplified])


lemma dict_routes_nonempty:
  assumes "dict_quantity_sources_customers inst r \<noteq> []"
  shows "dict_routes_sensibility_analysis inst r \<noteq> []"
proof -
  let ?A = "set (sSources_sCustomers (data inst))"
  let ?L = "concat (map (\<lambda>s. map (Pair s) (filter (\<lambda>c. (s, c) \<in> ?A) (sCustomers (data inst))))
                 (sSources (data inst)))"
  obtain a where a: "a \<in> ?A \<inter> (set (sSources (data inst)) \<times> set (sCustomers (data inst)))"
    using assms unfolding dict_quantity_nonempty by blast
  have sL: "set ?L = {a \<in> set (sSources (data inst)) \<times> set (sCustomers (data inst)). a \<in> ?A}"
    by (rule cross_filter_set)
  have "a \<in> set ?L"
    unfolding sL using a by blast
  then have "?L \<noteq> []"
    by (cases ?L) simp_all
  then show ?thesis
    unfolding dict_routes_map by simp
qed

lemma set_apply_rows:
  "set (apply_rows f n rows) = (if rows = [] then {n} else f ` set rows)"
  by (simp add: apply_rows_def)

lemma conclusions_sources_map:
  "conclusions_sources (map (\<lambda>s. (s, cap s, sh s, v s)) ss) =
     apply_rows (\<lambda>s. print_conclusions_sources_sensibility_analysis (Float (v s)) (Str s))
       (print_conclusions_sources_sensibility_analysis NaN Tok_nan)
       (filter (\<lambda>s. cap s = sh s) ss)"
  by (simp add: conclusions_sources_def apply_rows_def filter_map comp_def)

lemma conclusions_customers_map:
  "conclusions_customers (map (\<lambda>c. (c, dem c, sh c, v c)) cs) =
     apply_rows (\<lambda>c. print_conclusions_customers_sensibility_analysis (Float (v c)) (Str c))
       (print_conclusions_customers_sensibility_analysis NaN Tok_nan)
       (filter (\<lambda>c. dem c = sh c) cs)"
  by (simp add: conclusions_customers_def apply_rows_def filter_map comp_def)

lemma conclusions_routes_map:
  "conclusions_routes (map (\<lambda>a. (a, q a, v a)) as) =
     apply_rows (\<lambda>a. print_conclusions_routes_sensibility_analysis (Float (v a))
                        (Str (fst a)) (Str (snd a)))
       (print_conclusions_routes_sensibility_analysis NaN Tok_nan Tok_nan)
       (filter (\<lambda>a. q a = 0) as)"
  by (simp add: conclusions_routes_def apply_rows_def filter_map comp_def case_prod_beta)

lemma sources_line_subject:
  "print_conclusions_sources_sensibility_analysis v s =
     print_conclusions_sources_sensibility_analysis v' s' \<Longrightarrow> s = s'"
  by (simp add: print_conclusions_sources_sensibility_analysis_def split: if_splits)

lemma customers_line_subject:
  "print_conclusions_customers_sensibility_analysis v c =
     print_conclusions_customers_sensibility_analysis v' c' \<Longrightarrow> c = c'"
  by (simp add: print_conclusions_customers_sensibility_analysis_def split: if_splits)

lemma routes_line_subject:
  "print_conclusions_routes_sensibility_analysis v s c =
     print_conclusions_routes_sensibility_analysis v' s' c' \<Longrightarrow> s = s' \<and> c = c'"
  by (simp add: print_conclusions_routes_sensibility_analysis_def split: if_splits)

lemma conclusions_differ:
  "print_conclusions_sources_sensibility_analysis v s \<noteq>
     print_conclusions_customers_sensibility_analysis v' c"
  "print_conclusions_sources_sensibility_analysis v s \<noteq>
     print_conclusions_routes_sensibility_analysis v' s' c'"
  "print_conclusions_customers_sensibility_analysis v c \<noteq>
     print_conclusions_routes_sensibility_analysis v' s' c'"
  by (simp_all add: print_conclusions_defs)

lemma print_optimal_members:
  assumes "objective_value (data inst) (flow r) (f_obj inst) = Inr t"
    and "dict_source_sensibility_analysis inst r = Inr ds"
    and "dict_customers_sensibility_analysis inst r = Inr dc"
    and "p \<in> set (fst (print_optimal inst r))"
  shows "p \<in> set (conclusions_sources ds) \<or>
     p \<in> set (conclusions_customers dc) \<or>
     p \<in> set (conclusions_routes (dict_routes_sensibility_analysis inst r)) \<or>
     (\<exists>columns rows. p = Print_frame columns rows) \<or>
     (\<exists>a. p = Print [a]) \<or> (\<exists>a b. p = Print [a, b, Str newline]) \<or>
     (\<exists>a. p = Print [Str ''Solver status: '', a])"
  using assms by (auto simp: print_optimal_def split: if_splits)

lemma print_optimal_conclusions:
  assumes "objective_value (data inst) (flow r) (f_obj inst) = Inr t"
    and "dict_source_sensibility_analysis inst r = Inr ds"
    and "dict_customers_sensibility_analysis inst r = Inr dc"
    and "dict_quantity_sources_customers inst r \<noteq> []"
  shows "set (conclusions_sources ds) \<subseteq> set (fst (print_optimal inst r))"
    and "set (conclusions_customers dc) \<subseteq> set (fst (print_optimal inst r))"
    and "set (conclusions_routes (dict_routes_sensibility_analysis inst r))
           \<subseteq> set (fst (print_optimal inst r))"
    and "snd (print_optimal inst r) = None"
  using assms dict_routes_nonempty [OF assms(4)] by (auto simp: print_optimal_def)

lemma in_conclusions_sources:
  "p \<in> set (conclusions_sources df) \<Longrightarrow>
     \<exists>v s. p = print_conclusions_sources_sensibility_analysis v s"
  by (auto simp: conclusions_sources_def apply_rows_def split: if_splits)

lemma in_conclusions_customers:
  "p \<in> set (conclusions_customers df) \<Longrightarrow>
     \<exists>v c. p = print_conclusions_customers_sensibility_analysis v c"
  by (auto simp: conclusions_customers_def apply_rows_def split: if_splits)

lemma in_conclusions_routes:
  "p \<in> set (conclusions_routes df) \<Longrightarrow>
     \<exists>v s c. p = print_conclusions_routes_sensibility_analysis v s c"
  by (auto simp: conclusions_routes_def apply_rows_def split: if_splits)

lemma conclusion_not_heading:
  "print_conclusions_sources_sensibility_analysis v s \<noteq> Print_frame columns rows"
  "print_conclusions_customers_sensibility_analysis v s \<noteq> Print_frame columns rows"
  "print_conclusions_routes_sensibility_analysis v s c \<noteq> Print_frame columns rows"
  "print_conclusions_sources_sensibility_analysis v s \<noteq> Print [a]"
  "print_conclusions_customers_sensibility_analysis v s \<noteq> Print [a]"
  "print_conclusions_routes_sensibility_analysis v s c \<noteq> Print [a]"
  "print_conclusions_sources_sensibility_analysis v s \<noteq> Print [a, b, Str newline]"
  "print_conclusions_customers_sensibility_analysis v s \<noteq> Print [a, b, Str newline]"
  "print_conclusions_routes_sensibility_analysis v s c \<noteq> Print [a, b, Str newline]"
  "print_conclusions_sources_sensibility_analysis v s \<noteq> Print [Str ''Solver status: '', a]"
  "print_conclusions_customers_sensibility_analysis v s \<noteq> Print [Str ''Solver status: '', a]"
  "print_conclusions_routes_sensibility_analysis v s c \<noteq> Print [Str ''Solver status: '', a]"
  by (simp_all add: print_conclusions_defs)

lemma customer_line_in_output:
  assumes o: "objective_value (data inst) (flow r) (f_obj inst) = Inr t"
    and ds: "dict_source_sensibility_analysis inst r = Inr ds"
    and dc: "dict_customers_sensibility_analysis inst r = Inr dc"
    and q: "dict_quantity_sources_customers inst r \<noteq> []"
  shows "print_conclusions_customers_sensibility_analysis v c \<in> set (fst (print_optimal inst r)) \<longleftrightarrow>
         print_conclusions_customers_sensibility_analysis v c \<in> set (conclusions_customers dc)"
proof
  assume "print_conclusions_customers_sensibility_analysis v c \<in> set (fst (print_optimal inst r))"
  from print_optimal_members [OF o ds dc this]
  show "print_conclusions_customers_sensibility_analysis v c \<in> set (conclusions_customers dc)"
    using in_conclusions_sources [of "print_conclusions_customers_sensibility_analysis v c" ds]
      in_conclusions_routes [of "print_conclusions_customers_sensibility_analysis v c"
        "dict_routes_sensibility_analysis inst r"]
      conclusions_differ(1) [of _ _ v c] conclusions_differ(3) [of v c]
      conclusion_not_heading(2,5,8,11) [of v c]
    by metis
next
  assume "print_conclusions_customers_sensibility_analysis v c \<in> set (conclusions_customers dc)"
  then show "print_conclusions_customers_sensibility_analysis v c \<in> set (fst (print_optimal inst r))"
    using print_optimal_conclusions(2) [OF o ds dc q] by blast
qed

lemma binding_conclusions:
  assumes x: "x \<in> set xs"
    and subj: "\<forall>v y v' y'. line v y = line v' y' \<longrightarrow> y = y'"
    and inj: "\<forall>y y'. key y = key y' \<longrightarrow> y = y'"
    and nk: "\<forall>y. key y \<noteq> nk"
  shows "((\<exists>v. line v (key x)
             \<in> set (apply_rows (\<lambda>y. line (val y) (key y)) (line nv nk) (filter P xs))) \<longleftrightarrow> P x) \<and>
    (\<forall>v. line v (key x) \<in> set (apply_rows (\<lambda>y. line (val y) (key y)) (line nv nk) (filter P xs)) \<longrightarrow>
         line v (key x) = line (val x) (key x)) \<and>
    (P x \<longrightarrow> line (val x) (key x)
       \<in> set (apply_rows (\<lambda>y. line (val y) (key y)) (line nv nk) (filter P xs)))"
proof -
  let ?L = "set (apply_rows (\<lambda>y. line (val y) (key y)) (line nv nk) (filter P xs))"
  have mem: "P x \<and> line v (key x) = line (val x) (key x)" if m: "line v (key x) \<in> ?L" for v
  proof (cases "filter P xs = []")
    case True
    then have "line v (key x) = line nv nk"
      using m by (simp add: apply_rows_def)
    then have "key x = nk"
      using subj by blast
    then show ?thesis
      using nk by blast
  next
    case False
    then have "line v (key x) \<in> (\<lambda>y. line (val y) (key y)) ` {y \<in> set xs. P y}"
      using m by (simp add: apply_rows_def)
    then obtain y where y: "y \<in> set xs" "P y" "line v (key x) = line (val y) (key y)"
      by blast
    then have "key x = key y"
      using subj by blast
    then have "x = y"
      using inj by blast
    then show ?thesis
      using y by simp
  qed
  have p3: "P x \<longrightarrow> line (val x) (key x) \<in> ?L"
  proof
    assume "P x"
    then have xin: "x \<in> set (filter P xs)"
      using x by simp
    have ne: "filter P xs \<noteq> []"
      using xin by (metis empty_iff empty_set)
    have "line (val x) (key x) \<in> (\<lambda>y. line (val y) (key y)) ` set (filter P xs)"
      using xin by (rule imageI)
    then show "line (val x) (key x) \<in> ?L"
      using ne by (simp add: apply_rows_def)
  qed
  have p1: "(\<exists>v. line v (key x) \<in> ?L) \<longleftrightarrow> P x"
    using mem p3 by blast
  have p2: "\<forall>v. line v (key x) \<in> ?L \<longrightarrow> line v (key x) = line (val x) (key x)"
    using mem by blast
  show ?thesis
    by (intro conjI) (rule p1, rule p2, rule p3)
qed

lemma objective_value_complete:
  assumes inst: "create_instance d = Inr inst"
    and dS: "distinct (sSources d)" and dC: "distinct (sCustomers d)"
    and costs: "\<forall>a \<in> set (sSources_sCustomers d) \<inter> (set (sSources d) \<times> set (sCustomers d)).
                  pTransportationCosts d a \<noteq> None"
  shows "\<exists>t. objective_value (data inst) x (f_obj inst) = Inr t"
proof -
  have c: "\<forall>a \<in> set (sSources_sCustomers d) \<inter> (set (sSources d) \<times> set (sCustomers d)).
          pTransportationCosts d a = Some (the (pTransportationCosts d a))"
    using costs by simp
  have "objective_value d x (obj_expression d) =
      Inr (\<Sum>a \<in> set (sSources_sCustomers d) \<inter> (set (sSources d) \<times> set (sCustomers d)).
             the (pTransportationCosts d a) * x a)"
    using dS dC c by (rule objective_value_sum)
  then show ?thesis
    unfolding create_instance_data [OF inst] create_instance_f_obj [OF inst] by blast
qed

lemma customer_conclusion_lines:
  assumes inst: "create_instance d = Inr inst"
    and dS: "distinct (sSources d)" and dC: "distinct (sCustomers d)"
    and costs: "\<forall>a \<in> set (sSources_sCustomers d) \<inter> (set (sSources d) \<times> set (sCustomers d)).
                  pTransportationCosts d a \<noteq> None"
    and caps: "\<forall>s \<in> set (sSources d). pSourceProduction d s \<noteq> None"
    and dems: "\<forall>c \<in> set (sCustomers d). pCustomerDemand d c \<noteq> None"
    and opt: "termination_cond r = TC_optimal" "status r = Status_ok"
    and q: "\<exists>a \<in> set (sSources_sCustomers d) \<inter> (set (sSources d) \<times> set (sCustomers d)).
              0 < flow r a"
    and c: "c \<in> set (sCustomers d)"
  shows
   "((\<exists>v. print_conclusions_customers_sensibility_analysis v (Str c)
            \<in> set (fst (print_results inst r))) \<longleftrightarrow>
       the (pCustomerDemand d c) =
         (if {a \<in> set (sSources_sCustomers d). snd a = c \<and> fst a \<in> set (sSources d)} = {}
          then the (pCustomerDemand d c)
          else (\<Sum>a \<in> {a \<in> set (sSources_sCustomers d). snd a = c \<and> fst a \<in> set (sSources d)}.
                  flow r a))) \<and>
    (\<forall>v. print_conclusions_customers_sensibility_analysis v (Str c)
            \<in> set (fst (print_results inst r)) \<longrightarrow>
       print_conclusions_customers_sensibility_analysis v (Str c) =
       print_conclusions_customers_sensibility_analysis (Float (dual r (Key_c02 c))) (Str c)) \<and>
    (the (pCustomerDemand d c) =
         (if {a \<in> set (sSources_sCustomers d). snd a = c \<and> fst a \<in> set (sSources d)} = {}
          then the (pCustomerDemand d c)
          else (\<Sum>a \<in> {a \<in> set (sSources_sCustomers d). snd a = c \<and> fst a \<in> set (sSources d)}.
                  flow r a)) \<longrightarrow>
       print_conclusions_customers_sensibility_analysis (Float (dual r (Key_c02 c))) (Str c)
         \<in> set (fst (print_results inst r))) \<and>
    snd (print_results inst r) = None"
proof -
  let ?line = print_conclusions_customers_sensibility_analysis
  let ?dem = "\<lambda>c. the (pCustomerDemand d c)"
  let ?sh = "\<lambda>c. (if {a \<in> set (sSources_sCustomers d). snd a = c \<and> fst a \<in> set (sSources d)} = {}
          then the (pCustomerDemand d c)
          else (\<Sum>a \<in> {a \<in> set (sSources_sCustomers d). snd a = c \<and> fst a \<in> set (sSources d)}.
                  flow r a))"
  let ?v = "\<lambda>c. Float (dual r (Key_c02 c))"
  let ?out = "set (fst (print_results inst r))"
  let ?con = "set (apply_rows (\<lambda>y. ?line (?v y) (Str y)) (?line NaN Tok_nan)
                     (filter (\<lambda>c. ?dem c = ?sh c) (sCustomers d)))"
  obtain t where o: "objective_value (data inst) (flow r) (f_obj inst) = Inr t"
    using objective_value_complete [OF inst dS dC costs] by blast
  note ds = dict_source_complete [OF inst dC caps, of r]
  note dc = dict_customers_complete [OF inst dS dems, of r]
  have ne: "dict_quantity_sources_customers inst r \<noteq> []"
    unfolding dict_quantity_nonempty create_instance_data [OF inst] by (rule q)
  have pr: "print_results inst r = print_optimal inst r"
    using opt by (simp add: print_results_def)
  have out: "?line v (Str c) \<in> ?out \<longleftrightarrow> ?line v (Str c) \<in> ?con" for v
    unfolding pr customer_line_in_output [OF o ds dc ne] conclusions_customers_map ..
  have subj: "\<forall>v y v' y'. ?line v y = ?line v' y' \<longrightarrow> y = y'"
    using customers_line_subject by blast
  have inj: "\<forall>y y'. Str y = Str y' \<longrightarrow> y = y'" and nk: "\<forall>y. Str y \<noteq> Tok_nan"
    by simp_all
  note b = binding_conclusions [where x = c and xs = "sCustomers d" and line = ?line and val = ?v
      and key = Str and nk = Tok_nan and nv = NaN and P = "\<lambda>c. ?dem c = ?sh c", OF c subj inj nk]
  have p1: "(\<exists>v. ?line v (Str c) \<in> ?out) \<longleftrightarrow> ?dem c = ?sh c"
    using b [THEN conjunct1] out by simp
  have p2: "\<forall>v. ?line v (Str c) \<in> ?out \<longrightarrow> ?line v (Str c) = ?line (?v c) (Str c)"
    using b [THEN conjunct2, THEN conjunct1] out by blast
  have p3: "?dem c = ?sh c \<longrightarrow> ?line (?v c) (Str c) \<in> ?out"
    using b [THEN conjunct2, THEN conjunct2] out by simp
  have p4: "snd (print_results inst r) = None"
    unfolding pr by (rule print_optimal_conclusions(4) [OF o ds dc ne])
  show ?thesis
    by (intro conjI) (rule p1, rule p2, rule p3, rule p4)
qed

lemma base_data_complete:
  "distinct (sSources base_data)"
  "distinct (sCustomers base_data)"
  "\<forall>a \<in> set (sSources_sCustomers base_data)
         \<inter> (set (sSources base_data) \<times> set (sCustomers base_data)).
     pTransportationCosts base_data a \<noteq> None"
  "\<forall>s \<in> set (sSources base_data). pSourceProduction base_data s \<noteq> None"
  "\<forall>c \<in> set (sCustomers base_data). pCustomerDemand base_data c \<noteq> None"
proof -
  have "\<forall>a \<in> set (sSources_sCustomers base_data). pTransportationCosts base_data a \<noteq> None"
    by (simp add: base_data_def)
  then show "\<forall>a \<in> set (sSources_sCustomers base_data)
         \<inter> (set (sSources base_data) \<times> set (sCustomers base_data)).
     pTransportationCosts base_data a \<noteq> None"
    by blast
qed (simp_all add: base_data_def)

lemma sum_filtered_arcs:
  "(\<Sum>a \<in> {a \<in> set xs. P a}. g a) = (\<Sum>a \<in> set xs. if P a then g a else (0::real))"
  by (rule sum.inter_filter) simp

lemma base_received:
  "(\<Sum>a \<in> {a \<in> set (sSources_sCustomers base_data).
               snd a = ''Ams'' \<and> fst a \<in> set (sSources base_data)}. flow base_reply a) = 300"
  "(\<Sum>a \<in> {a \<in> set (sSources_sCustomers base_data).
               snd a = ''Ber'' \<and> fst a \<in> set (sSources base_data)}. flow base_reply a) = 200"
  unfolding sum_filtered_arcs by (simp_all add: base_data_def base_reply_def)

lemma base_positive_flow:
  "\<exists>a \<in> set (sSources_sCustomers base_data)
         \<inter> (set (sSources base_data) \<times> set (sCustomers base_data)). 0 < flow base_reply a"
  by (rule bexI [of _ "(''Arn'', ''Ams'')"]) (simp_all add: base_data_def base_reply_def)

lemma negative_dual_reply_fields:
  "termination_cond negative_dual_reply = TC_optimal"
  "status negative_dual_reply = Status_ok"
  "flow negative_dual_reply = flow base_reply"
  "dual negative_dual_reply (Key_c02 ''Ams'') = - 10"
  by (simp_all add: negative_dual_reply_def base_reply_def)

subsection \<open>Conclusions about customers\<close>

text \<open>
  Claim C2, as stated, fails: for the customer \<open>Ams\<close>, which receives exactly its
  demand, a dual value of \<open>-10\<close> on the demand constraint is printed as a reduction of
  the cost by 10, and no line about an increase is printed for it.
\<close>

theorem demand_dual_direction_counterexample:
  "termination_cond negative_dual_reply = TC_optimal \<and>
   status negative_dual_reply = Status_ok \<and>
   pCustomerDemand base_data ''Ams'' = Some 300 \<and>
   (\<Sum>a \<in> {a \<in> set (sSources_sCustomers base_data).
               snd a = ''Ams'' \<and> fst a \<in> set (sSources base_data)}.
      flow negative_dual_reply a) = 300 \<and>
   dual negative_dual_reply (Key_c02 ''Ams'') = - 10 \<and>
   Print [Str ''The total transportation cost would be reduced by'', Num 10,
          Str ''euros for each additional ton supply at'', Str ''Ams'']
     \<in> set (fst (print_results base_instance negative_dual_reply)) \<and>
   Print [Str ''The total transportation cost would be increased in'', Num 10,
          Str ''euros for each additional ton supply at'', Str ''Ams'']
     \<notin> set (fst (print_results base_instance negative_dual_reply)) \<and>
   snd (print_results base_instance negative_dual_reply) = None"
proof -
  let ?out = "set (fst (print_results base_instance negative_dual_reply))"
  have ams: "''Ams'' \<in> set (sCustomers base_data)"
    and dem: "pCustomerDemand base_data ''Ams'' = Some 300"
    by (simp_all add: base_data_def)
  have sh: "(\<Sum>a \<in> {a \<in> set (sSources_sCustomers base_data).
               snd a = ''Ams'' \<and> fst a \<in> set (sSources base_data)}.
      flow negative_dual_reply a) = 300"
    unfolding negative_dual_reply_fields(3) by (rule base_received(1))
  have q: "\<exists>a \<in> set (sSources_sCustomers base_data)
         \<inter> (set (sSources base_data) \<times> set (sCustomers base_data)).
         0 < flow negative_dual_reply a"
    unfolding negative_dual_reply_fields(3) by (rule base_positive_flow)
  note l = customer_conclusion_lines [OF create_base_instance base_data_complete
      negative_dual_reply_fields(1,2) q ams,
      unfolded sh negative_dual_reply_fields(4) dem option.sel if_cancel]
  have "print_conclusions_customers_sensibility_analysis (Float (- 10)) (Str ''Ams'') \<in> ?out"
    using l [THEN conjunct2, THEN conjunct2, THEN conjunct1] by simp
  then have w1: "Print [Str ''The total transportation cost would be reduced by'', Num 10,
          Str ''euros for each additional ton supply at'', Str ''Ams''] \<in> ?out"
    by (simp add: print_conclusions_customers_sensibility_analysis_def)
  have w2: "Print [Str ''The total transportation cost would be increased in'', Num 10,
          Str ''euros for each additional ton supply at'', Str ''Ams''] \<notin> ?out"
  proof
    assume "Print [Str ''The total transportation cost would be increased in'', Num 10,
          Str ''euros for each additional ton supply at'', Str ''Ams''] \<in> ?out"
    then have "print_conclusions_customers_sensibility_analysis (Float 10) (Str ''Ams'') \<in> ?out"
      by (simp add: print_conclusions_customers_sensibility_analysis_def)
    then have "print_conclusions_customers_sensibility_analysis (Float 10) (Str ''Ams'') =
               print_conclusions_customers_sensibility_analysis (Float (- 10)) (Str ''Ams'')"
      using l [THEN conjunct2, THEN conjunct1] by blast
    then show False
      by (simp add: print_conclusions_customers_sensibility_analysis_def)
  qed
  have w3: "snd (print_results base_instance negative_dual_reply) = None"
    using l by (rule conjunct2 [THEN conjunct2, THEN conjunct2])
  show ?thesis
    using negative_dual_reply_fields(1,2,4) dem sh w1 w2 w3 by blast
qed

text \<open>
  Claim C2, amended. Take data whose listed sources and customers all have a capacity and
  a demand and whose declared arcs between a listed source and a listed customer all have a
  cost, and a reply with an optimal termination in which some such arc carries a positive
  quantity. For a listed customer whose demand equals the sum of the solved flows on the
  declared arcs entering it from listed sources, or which has no such arc, the conclusion
  printed for it is the one for the dual value of its demand constraint, read with the same
  signs as on the capacity side: a negative dual value prints that the cost would be reduced
  by its absolute value for each additional ton supplied at the customer, a positive one
  that the cost would be increased by it, and zero that the cost would remain equal. No
  other conclusion about that customer is printed.
\<close>

theorem customer_conclusion_sign:
  assumes inst: "create_instance d = Inr inst"
    and dS: "distinct (sSources d)" and dC: "distinct (sCustomers d)"
    and costs: "\<forall>a \<in> set (sSources_sCustomers d) \<inter> (set (sSources d) \<times> set (sCustomers d)).
                  pTransportationCosts d a \<noteq> None"
    and caps: "\<forall>s \<in> set (sSources d). pSourceProduction d s \<noteq> None"
    and dems: "\<forall>c \<in> set (sCustomers d). pCustomerDemand d c \<noteq> None"
    and opt: "termination_cond r = TC_optimal" "status r = Status_ok"
    and q: "\<exists>a \<in> set (sSources_sCustomers d) \<inter> (set (sSources d) \<times> set (sCustomers d)).
              0 < flow r a"
    and c: "c \<in> set (sCustomers d)" and dem: "pCustomerDemand d c = Some demand"
    and binding: "{a \<in> set (sSources_sCustomers d). snd a = c \<and> fst a \<in> set (sSources d)} = {} \<or>
       demand = (\<Sum>a \<in> {a \<in> set (sSources_sCustomers d). snd a = c \<and> fst a \<in> set (sSources d)}.
                   flow r a)"
  shows
   "(\<forall>v. print_conclusions_customers_sensibility_analysis v (Str c)
            \<in> set (fst (print_results inst r)) \<longrightarrow>
       print_conclusions_customers_sensibility_analysis v (Str c) =
       print_conclusions_customers_sensibility_analysis (Float (dual r (Key_c02 c))) (Str c)) \<and>
    (dual r (Key_c02 c) < 0 \<longrightarrow>
       Print [Str ''The total transportation cost would be reduced by'',
              Num \<bar>dual r (Key_c02 c)\<bar>,
              Str ''euros for each additional ton supply at'', Str c]
         \<in> set (fst (print_results inst r))) \<and>
    (dual r (Key_c02 c) > 0 \<longrightarrow>
       Print [Str ''The total transportation cost would be increased in'',
              Num (dual r (Key_c02 c)),
              Str ''euros for each additional ton supply at'', Str c]
         \<in> set (fst (print_results inst r))) \<and>
    (dual r (Key_c02 c) = 0 \<longrightarrow>
       Print [Str ''The total transportation cost would remain equal for each additional ton supply at'',
              Str c]
         \<in> set (fst (print_results inst r)))"
proof -
  let ?out = "set (fst (print_results inst r))"
  let ?v = "dual r (Key_c02 c)"
  let ?line = print_conclusions_customers_sensibility_analysis
  note l = customer_conclusion_lines [OF inst dS dC costs caps dems opt q c]
  have p1: "\<forall>v. ?line v (Str c) \<in> ?out \<longrightarrow> ?line v (Str c) = ?line (Float ?v) (Str c)"
    using l by (rule conjunct2 [THEN conjunct1])
  have b: "the (pCustomerDemand d c) =
         (if {a \<in> set (sSources_sCustomers d). snd a = c \<and> fst a \<in> set (sSources d)} = {}
          then the (pCustomerDemand d c)
          else (\<Sum>a \<in> {a \<in> set (sSources_sCustomers d). snd a = c \<and> fst a \<in> set (sSources d)}.
                  flow r a))"
  proof (cases "{a \<in> set (sSources_sCustomers d). snd a = c \<and> fst a \<in> set (sSources d)} = {}")
    case True
    show ?thesis
      unfolding True by simp
  next
    case False
    with binding have "demand =
        (\<Sum>a \<in> {a \<in> set (sSources_sCustomers d). snd a = c \<and> fst a \<in> set (sSources d)}.
           flow r a)"
      by blast
    moreover have "(if {a \<in> set (sSources_sCustomers d). snd a = c \<and> fst a \<in> set (sSources d)} = {}
          then demand
          else (\<Sum>a \<in> {a \<in> set (sSources_sCustomers d). snd a = c \<and> fst a \<in> set (sSources d)}.
                  flow r a)) =
        (\<Sum>a \<in> {a \<in> set (sSources_sCustomers d). snd a = c \<and> fst a \<in> set (sSources d)}.
           flow r a)"
      using False by (rule if_not_P)
    ultimately show ?thesis
      unfolding dem option.sel by (rule trans [OF _ sym])
  qed
  have here: "?line (Float ?v) (Str c) \<in> ?out"
    using l [THEN conjunct2, THEN conjunct2, THEN conjunct1] b by (rule mp)
  have p2: "?v < 0 \<longrightarrow>
       Print [Str ''The total transportation cost would be reduced by'', Num \<bar>?v\<bar>,
              Str ''euros for each additional ton supply at'', Str c] \<in> ?out"
    using here by (auto simp: print_conclusions_customers_sensibility_analysis_def)
  have p3: "?v > 0 \<longrightarrow>
       Print [Str ''The total transportation cost would be increased in'', Num ?v,
              Str ''euros for each additional ton supply at'', Str c] \<in> ?out"
    using here by (auto simp: print_conclusions_customers_sensibility_analysis_def)
  have p4: "?v = 0 \<longrightarrow>
       Print [Str ''The total transportation cost would remain equal for each additional ton supply at'',
              Str c] \<in> ?out"
    using here by (auto simp: print_conclusions_customers_sensibility_analysis_def)
  show ?thesis
    by (intro conjI) (rule p1, rule p2, rule p3, rule p4)
qed

theorem customer_conclusion_sign_witness:
  "Print [Str ''The total transportation cost would be increased in'', Num 10,
          Str ''euros for each additional ton supply at'', Str ''Ams'']
     \<in> set (fst (print_results base_instance base_reply)) \<and>
   Print [Str ''The total transportation cost would be reduced by'', Num 10,
          Str ''euros for each additional ton supply at'', Str ''Ams'']
     \<in> set (fst (print_results base_instance negative_dual_reply))"
proof -
  have opt: "termination_cond base_reply = TC_optimal" "status base_reply = Status_ok"
    by (simp_all add: base_reply_def)
  have ams: "''Ams'' \<in> set (sCustomers base_data)" "pCustomerDemand base_data ''Ams'' = Some 300"
    by (simp_all add: base_data_def)
  have duals: "dual base_reply (Key_c02 ''Ams'') = 10"
    by (simp_all add: base_reply_def)
  have b1: "{a \<in> set (sSources_sCustomers base_data).
              snd a = ''Ams'' \<and> fst a \<in> set (sSources base_data)} = {} \<or>
       300 = (\<Sum>a \<in> {a \<in> set (sSources_sCustomers base_data).
                        snd a = ''Ams'' \<and> fst a \<in> set (sSources base_data)}. flow base_reply a)"
    using base_received(1) by simp
  have b2: "{a \<in> set (sSources_sCustomers base_data).
              snd a = ''Ams'' \<and> fst a \<in> set (sSources base_data)} = {} \<or>
       300 = (\<Sum>a \<in> {a \<in> set (sSources_sCustomers base_data).
                        snd a = ''Ams'' \<and> fst a \<in> set (sSources base_data)}.
                flow negative_dual_reply a)"
    unfolding negative_dual_reply_fields(3) by (rule b1)
  have q2: "\<exists>a \<in> set (sSources_sCustomers base_data)
         \<inter> (set (sSources base_data) \<times> set (sCustomers base_data)).
         0 < flow negative_dual_reply a"
    unfolding negative_dual_reply_fields(3) by (rule base_positive_flow)
  have w1: "Print [Str ''The total transportation cost would be increased in'', Num 10,
          Str ''euros for each additional ton supply at'', Str ''Ams'']
     \<in> set (fst (print_results base_instance base_reply))"
    using customer_conclusion_sign [OF create_base_instance base_data_complete opt
        base_positive_flow ams b1, THEN conjunct2, THEN conjunct2, THEN conjunct1,
        unfolded duals]
    by simp
  have w2: "Print [Str ''The total transportation cost would be reduced by'', Num 10,
          Str ''euros for each additional ton supply at'', Str ''Ams'']
     \<in> set (fst (print_results base_instance negative_dual_reply))"
    using customer_conclusion_sign [OF create_base_instance base_data_complete
        negative_dual_reply_fields(1,2) q2 ams b2, THEN conjunct2, THEN conjunct1,
        unfolded negative_dual_reply_fields(4)]
    by simp
  show ?thesis
    by (intro conjI) (rule w1, rule w2)
qed

subsection \<open>Two runs with an optimal reply\<close>

lemmas report_defs = solve_problem_and_print_results_def print_results_def print_optimal_def
  objective_value_def dict_quantity_sources_customers_def dict_source_sensibility_analysis_def
  dict_customers_sensibility_analysis_def dict_routes_sensibility_analysis_def
  getitem_constraint_def getitem_value_def constraint_value_def body_value_def
  conclusions_sources_def conclusions_customers_def conclusions_routes_def apply_rows_def
  print_conclusions_defs

lemma zero_tables:
  "dict_quantity_sources_customers zero_instance zero_reply = []"
  "dict_source_sensibility_analysis zero_instance zero_reply = Inr [(''Arn'', 0, 0, 0)]"
  "dict_customers_sensibility_analysis zero_instance zero_reply = Inr [(''Ams'', 0, 0, 0)]"
  "dict_routes_sensibility_analysis zero_instance zero_reply = [((''Arn'', ''Ams''), 0, 1)]"
  by (simp_all add: report_defs zero_instance_def zero_data_def zero_reply_def)

lemma zero_run:
  "solve_problem_and_print_results zero_solver zero_data =
     \<lparr>stdout =
        [Print [Str ''Solver status: '', Tok_status Status_ok],
         Print [Str ''Termination condition: '', Tok_termination TC_optimal, Str newline],
         Print [Str ''Total transportation cost: '', Num 0, Str newline],
         Print [Str ''Quantity exchanged between sources and customers:'']],
      raised = Some TypeError,
      solver_calls = [zero_instance]\<rparr>"
  unfolding solve_problem_and_print_results_def create_zero_instance zero_solver_def
  by (simp add: report_defs zero_instance_def zero_data_def zero_reply_def)

lemma slack_tables:
  "dict_quantity_sources_customers slack_instance slack_reply = [((''Arn'', ''Ams''), 300)]"
  "dict_source_sensibility_analysis slack_instance slack_reply = Inr [(''Arn'', 400, 300, 0)]"
  "dict_customers_sensibility_analysis slack_instance slack_reply = Inr [(''Ams'', 300, 300, 10)]"
  "dict_routes_sensibility_analysis slack_instance slack_reply = [((''Arn'', ''Ams''), 300, 0)]"
  by (simp_all add: report_defs slack_instance_def slack_data_def slack_reply_def)

lemma slack_run:
  "solve_problem_and_print_results slack_solver slack_data =
     \<lparr>stdout =
        [Print [Str ''Solver status: '', Tok_status Status_ok],
         Print [Str ''Termination condition: '', Tok_termination TC_optimal, Str newline],
         Print [Str ''Total transportation cost: '', Num 3000, Str newline],
         Print [Str ''Quantity exchanged between sources and customers:''],
         Print_frame [''Source'', ''Customer'', ''Quantity'']
           [[Cell_str ''Arn'', Cell_str ''Ams'', Cell_num 300]],
         Print [Str newline],
         Print [Str ''Sources sensibility analysis:''],
         Print_frame [''Source'', ''Capacity'', ''Shipped'', ''Shadow price'']
           [[Cell_str ''Arn'', Cell_num 400, Cell_num 300, Cell_num 0]],
         Print [Str ''The total transportation cost would remain equal for each additional ton available in'',
                Tok_nan],
         Print [Str newline],
         Print [Str ''Customers sensibility analysis:''],
         Print_frame [''Customer'', ''Demand'', ''Shipped'', ''Shadow price'']
           [[Cell_str ''Ams'', Cell_num 300, Cell_num 300, Cell_num 10]],
         Print [Str ''The total transportation cost would be increased in'', Num 10,
                Str ''euros for each additional ton supply at'', Str ''Ams''],
         Print [Str newline],
         Print [Str ''Routes sensibility analysis:''],
         Print_frame [''Source'', ''Customer'', ''Quantity'', ''Reduced cost'']
           [[Cell_str ''Arn'', Cell_str ''Ams'', Cell_num 300, Cell_num 0]],
         Print [Str ''The total transportation cost would remain equal for each ton supply from'',
                Tok_nan, Str ''to'', Tok_nan],
         Print [Str newline]],
      raised = None,
      solver_calls = [slack_instance]\<rparr>"
  unfolding solve_problem_and_print_results_def create_slack_instance slack_solver_def
  by (simp add: report_defs slack_instance_def slack_data_def slack_reply_def)

subsection \<open>Conclusions about sources\<close>

text \<open>
  Claim C7 fails on two runs of the program, both with an optimal reply. In the first
  nothing is produced and nothing moves: the source \<open>Arn\<close> ships exactly its capacity,
  but the run ends with \<open>TypeError\<close> when the table of quantities is built, which is
  before the table of sources, so that no conclusion about \<open>Arn\<close> is printed. In the
  second the source \<open>Arn\<close> ships less than its capacity and is the only source: the run
  still prints one conclusion under the table of sources, the one for a shadow price of
  zero, about a source called \<open>nan\<close>.
\<close>

theorem source_conclusion_divergence:
  "create_instance zero_data = Inr zero_instance \<and>
   termination_cond (zero_solver zero_instance) = TC_optimal \<and>
   status (zero_solver zero_instance) = Status_ok \<and>
   dict_source_sensibility_analysis zero_instance (zero_solver zero_instance) =
     Inr [(''Arn'', 0, 0, 0)] \<and>
   solve_problem_and_print_results zero_solver zero_data =
     \<lparr>stdout =
        [Print [Str ''Solver status: '', Tok_status Status_ok],
         Print [Str ''Termination condition: '', Tok_termination TC_optimal, Str newline],
         Print [Str ''Total transportation cost: '', Num 0, Str newline],
         Print [Str ''Quantity exchanged between sources and customers:'']],
      raised = Some TypeError,
      solver_calls = [zero_instance]\<rparr> \<and>
   create_instance slack_data = Inr slack_instance \<and>
   termination_cond (slack_solver slack_instance) = TC_optimal \<and>
   status (slack_solver slack_instance) = Status_ok \<and>
   dict_source_sensibility_analysis slack_instance (slack_solver slack_instance) =
     Inr [(''Arn'', 400, 300, 0)] \<and>
   take 4 (drop 6 (stdout (solve_problem_and_print_results slack_solver slack_data))) =
     [Print [Str ''Sources sensibility analysis:''],
      Print_frame [''Source'', ''Capacity'', ''Shipped'', ''Shadow price'']
        [[Cell_str ''Arn'', Cell_num 400, Cell_num 300, Cell_num 0]],
      Print [Str ''The total transportation cost would remain equal for each additional ton available in'',
             Tok_nan],
      Print [Str newline]] \<and>
   raised (solve_problem_and_print_results slack_solver slack_data) = None"
proof -
  have z: "termination_cond (zero_solver zero_instance) = TC_optimal"
    "status (zero_solver zero_instance) = Status_ok"
    by (simp_all add: zero_solver_def zero_reply_def)
  have zt: "dict_source_sensibility_analysis zero_instance (zero_solver zero_instance) =
     Inr [(''Arn'', 0, 0, 0)]"
    unfolding zero_solver_def by (rule zero_tables(2))
  have s: "termination_cond (slack_solver slack_instance) = TC_optimal"
    "status (slack_solver slack_instance) = Status_ok"
    by (simp_all add: slack_solver_def slack_reply_def)
  have st: "dict_source_sensibility_analysis slack_instance (slack_solver slack_instance) =
     Inr [(''Arn'', 400, 300, 0)]"
    unfolding slack_solver_def by (rule slack_tables(2))
  have so: "take 4 (drop 6 (stdout (solve_problem_and_print_results slack_solver slack_data))) =
     [Print [Str ''Sources sensibility analysis:''],
      Print_frame [''Source'', ''Capacity'', ''Shipped'', ''Shadow price'']
        [[Cell_str ''Arn'', Cell_num 400, Cell_num 300, Cell_num 0]],
      Print [Str ''The total transportation cost would remain equal for each additional ton available in'',
             Tok_nan],
      Print [Str newline]]"
    unfolding slack_run by simp
  have sr: "raised (solve_problem_and_print_results slack_solver slack_data) = None"
    unfolding slack_run by simp
  show ?thesis
    by (intro conjI) (rule create_zero_instance, rule z(1), rule z(2), rule zt, rule zero_run,
        rule create_slack_instance, rule s(1), rule s(2), rule st, rule so, rule sr)
qed

subsection \<open>Conclusions about routes\<close>

text \<open>
  Claim C8 fails on the same two runs. In the first the only arc, from \<open>Arn\<close> to
  \<open>Ams\<close>, carries nothing, but the run ends with \<open>TypeError\<close> before the table of
  routes, so that no conclusion about the arc is printed. In the second the only arc carries
  300 tons: the run still prints one conclusion under the table of routes, the one for a
  reduced cost of zero, about a route from \<open>nan\<close> to \<open>nan\<close>.
\<close>

theorem route_conclusion_divergence:
  "create_instance zero_data = Inr zero_instance \<and>
   termination_cond (zero_solver zero_instance) = TC_optimal \<and>
   status (zero_solver zero_instance) = Status_ok \<and>
   dict_routes_sensibility_analysis zero_instance (zero_solver zero_instance) =
     [((''Arn'', ''Ams''), 0, 1)] \<and>
   stdout (solve_problem_and_print_results zero_solver zero_data) =
     [Print [Str ''Solver status: '', Tok_status Status_ok],
      Print [Str ''Termination condition: '', Tok_termination TC_optimal, Str newline],
      Print [Str ''Total transportation cost: '', Num 0, Str newline],
      Print [Str ''Quantity exchanged between sources and customers:'']] \<and>
   raised (solve_problem_and_print_results zero_solver zero_data) = Some TypeError \<and>
   create_instance slack_data = Inr slack_instance \<and>
   termination_cond (slack_solver slack_instance) = TC_optimal \<and>
   status (slack_solver slack_instance) = Status_ok \<and>
   dict_routes_sensibility_analysis slack_instance (slack_solver slack_instance) =
     [((''Arn'', ''Ams''), 300, 0)] \<and>
   drop 14 (stdout (solve_problem_and_print_results slack_solver slack_data)) =
     [Print [Str ''Routes sensibility analysis:''],
      Print_frame [''Source'', ''Customer'', ''Quantity'', ''Reduced cost'']
        [[Cell_str ''Arn'', Cell_str ''Ams'', Cell_num 300, Cell_num 0]],
      Print [Str ''The total transportation cost would remain equal for each ton supply from'',
             Tok_nan, Str ''to'', Tok_nan],
      Print [Str newline]] \<and>
   raised (solve_problem_and_print_results slack_solver slack_data) = None"
proof -
  have z: "termination_cond (zero_solver zero_instance) = TC_optimal"
    "status (zero_solver zero_instance) = Status_ok"
    by (simp_all add: zero_solver_def zero_reply_def)
  have zt: "dict_routes_sensibility_analysis zero_instance (zero_solver zero_instance) =
     [((''Arn'', ''Ams''), 0, 1)]"
    unfolding zero_solver_def by (rule zero_tables(4))
  have zo: "stdout (solve_problem_and_print_results zero_solver zero_data) =
     [Print [Str ''Solver status: '', Tok_status Status_ok],
      Print [Str ''Termination condition: '', Tok_termination TC_optimal, Str newline],
      Print [Str ''Total transportation cost: '', Num 0, Str newline],
      Print [Str ''Quantity exchanged between sources and customers:'']]"
    unfolding zero_run by simp
  have zr: "raised (solve_problem_and_print_results zero_solver zero_data) = Some TypeError"
    unfolding zero_run by simp
  have s: "termination_cond (slack_solver slack_instance) = TC_optimal"
    "status (slack_solver slack_instance) = Status_ok"
    by (simp_all add: slack_solver_def slack_reply_def)
  have st: "dict_routes_sensibility_analysis slack_instance (slack_solver slack_instance) =
     [((''Arn'', ''Ams''), 300, 0)]"
    unfolding slack_solver_def by (rule slack_tables(4))
  have so: "drop 14 (stdout (solve_problem_and_print_results slack_solver slack_data)) =
     [Print [Str ''Routes sensibility analysis:''],
      Print_frame [''Source'', ''Customer'', ''Quantity'', ''Reduced cost'']
        [[Cell_str ''Arn'', Cell_str ''Ams'', Cell_num 300, Cell_num 0]],
      Print [Str ''The total transportation cost would remain equal for each ton supply from'',
             Tok_nan, Str ''to'', Tok_nan],
      Print [Str newline]]"
    unfolding slack_run by simp
  have sr: "raised (solve_problem_and_print_results slack_solver slack_data) = None"
    unfolding slack_run by simp
  show ?thesis
    by (intro conjI) (rule create_zero_instance, rule z(1), rule z(2), rule zt, rule zo, rule zr,
        rule create_slack_instance, rule s(1), rule s(2), rule st, rule so, rule sr)
qed

end
